theory Spec2Isabelle
  imports Complex_Main
begin

section \<open>Python values shared by both scripts\<close>

text \<open>Exceptions raised by the scripts or by the libraries they call.\<close>

datatype error =
    AssertionError
  | NameError string
  | UnboundLocalError string
  | AttributeError string
  | ValueError
  | RuntimeError
  | OSError

text \<open>
  A Python float as far as the training loop uses it: the loop only compares scores,
  so a score is a real number, an infinity or NaN. Every comparison with NaN is false.
\<close>

datatype pyfloat = NegInf | Finite real | PosInf | NaN

fun float_less :: "pyfloat \<Rightarrow> pyfloat \<Rightarrow> bool" where
  "float_less NaN _ = False"
| "float_less _ NaN = False"
| "float_less _ NegInf = False"
| "float_less PosInf _ = False"
| "float_less NegInf _ = True"
| "float_less (Finite a) PosInf = True"
| "float_less (Finite a) (Finite b) = (a < b)"

text \<open>
  Arithmetic on the elements of a tensor. A result beyond the largest float32 overflows
  to an infinity, an undefined one (infinity minus infinity, zero times infinity) is NaN,
  and NaN goes through every operation. Rounding is not modelled: a finite value is a
  real number.
\<close>

definition float_max :: real where
  "float_max = (2 - 1 / 2 ^ 23) * 2 ^ 127"

definition overflow :: "real \<Rightarrow> pyfloat" where
  "overflow r =
    (if float_max < r then PosInf else if r < - float_max then NegInf else Finite r)"

fun float_add :: "pyfloat \<Rightarrow> pyfloat \<Rightarrow> pyfloat" where
  "float_add NaN _ = NaN"
| "float_add _ NaN = NaN"
| "float_add PosInf NegInf = NaN"
| "float_add NegInf PosInf = NaN"
| "float_add PosInf _ = PosInf"
| "float_add _ PosInf = PosInf"
| "float_add NegInf _ = NegInf"
| "float_add _ NegInf = NegInf"
| "float_add (Finite a) (Finite b) = overflow (a + b)"

fun float_mul :: "pyfloat \<Rightarrow> pyfloat \<Rightarrow> pyfloat" where
  "float_mul NaN _ = NaN"
| "float_mul _ NaN = NaN"
| "float_mul (Finite a) (Finite b) = overflow (a * b)"
| "float_mul (Finite a) PosInf = (if a = 0 then NaN else if 0 < a then PosInf else NegInf)"
| "float_mul (Finite a) NegInf = (if a = 0 then NaN else if 0 < a then NegInf else PosInf)"
| "float_mul PosInf (Finite b) = (if b = 0 then NaN else if 0 < b then PosInf else NegInf)"
| "float_mul NegInf (Finite b) = (if b = 0 then NaN else if 0 < b then NegInf else PosInf)"
| "float_mul PosInf PosInf = PosInf"
| "float_mul NegInf NegInf = PosInf"
| "float_mul PosInf NegInf = NegInf"
| "float_mul NegInf PosInf = NegInf"

text \<open>The negative-slope activations: \<open>x\<close> where \<open>x \<ge> 0\<close>, else \<open>a * x\<close>; NaN stays NaN.\<close>

fun float_prelu :: "pyfloat \<Rightarrow> pyfloat \<Rightarrow> pyfloat" where
  "float_prelu a NaN = NaN"
| "float_prelu a PosInf = PosInf"
| "float_prelu a NegInf = float_mul a NegInf"
| "float_prelu a (Finite x) = (if 0 \<le> x then Finite x else float_mul a (Finite x))"

fun float_tanh :: "pyfloat \<Rightarrow> pyfloat" where
  "float_tanh NaN = NaN"
| "float_tanh PosInf = Finite 1"
| "float_tanh NegInf = Finite (- 1)"
| "float_tanh (Finite x) = Finite (tanh x)"

fun float_sigmoid :: "pyfloat \<Rightarrow> pyfloat" where
  "float_sigmoid NaN = NaN"
| "float_sigmoid PosInf = Finite 1"
| "float_sigmoid NegInf = Finite 0"
| "float_sigmoid (Finite x) = Finite (1 / (1 + exp (- x)))"

section \<open>model.py: the classification pipeline\<close>

subsection \<open>Configuration and names\<close>

text \<open>The argparse namespace of model.py, with the flags that \<open>main\<close> and its callees read.\<close>

record args =
  processed_data_dir :: string
  target_dir :: string
  n_valid_patches :: int
  fixed_random_seed :: bool
  inference :: bool
  nni :: bool
  learning_rate :: real
  batch_size :: int
  max_epochs :: int
  patience :: int

text \<open>
  The names bound at module level when model.py runs as a script: its imports, its
  top-level definitions and the variables of the \<open>__main__\<close> block. There is no
  \<open>import nni\<close> in model.py.
\<close>

definition module_globals :: "string list" where
  "module_globals =
    [''torch'', ''nn'', ''F'', ''Dataset'', ''DataLoader'', ''argparse'', ''os'', ''time'',
     ''defaultdict'', ''copy'', ''np'', ''matthews_corrcoef'', ''LoadTask'', ''eotasks'',
     ''SCALE'', ''EODataset'', ''EOModel'', ''main'', ''parser'', ''args'', ''key'', ''value'']"

text \<open>
  The names \<open>main\<close> assigns somewhere in its body; every other name read in \<open>main\<close> is
  looked up at module level.
\<close>

definition main_locals :: "string list" where
  "main_locals =
    [''args'', ''predict'', ''train_dataset'', ''valid_dataset'', ''train_loader'',
     ''valid_loader'', ''model'', ''device'', ''optimizer'', ''best_loss'', ''best_epoch'',
     ''patience_count'', ''epoch'', ''start_time'', ''train_losses'', ''idx'', ''inputs'',
     ''target'', ''weight'', ''loss'', ''_'', ''train_loss'', ''valid_losses'', ''preds'',
     ''pred'', ''valid_loss'', ''best_model'', ''best_preds'', ''save_model_path'']"

text \<open>The built-in functions the module uses.\<close>

definition builtins :: "string list" where
  "builtins = [''print'', ''range'', ''enumerate'', ''len'', ''vars'', ''super'']"

text \<open>A module-level lookup goes to the module's names, then to the built-ins.\<close>

definition load_global :: "string \<Rightarrow> error + unit" where
  "load_global name =
    (if name \<in> set module_globals \<or> name \<in> set builtins then Inr ()
     else Inl (NameError name))"

text \<open>
  Reading a name inside \<open>main\<close>. A name that \<open>main\<close> assigns is a local variable, and
  the program state tracks the ones that may be unbound; any other name is looked up at
  module level.
\<close>

definition load_name :: "string \<Rightarrow> error + unit" where
  "load_name name = (if name \<in> set main_locals then Inr () else load_global name)"

text \<open>
  \<open>nni.report_intermediate_result(valid_loss)\<close> (line 300): the callee expression is
  evaluated first, then the argument, a bound local.
\<close>

definition report_intermediate_result :: "error + unit" where
  "report_intermediate_result = load_name ''nni''"

text \<open>\<open>nni.report_final_result(best_valid_loss)\<close> (line 315), evaluated in the same order.\<close>

definition report_final_result :: "error + unit" where
  "report_final_result =
    (case load_name ''nni'' of Inl e \<Rightarrow> Inl e | Inr _ \<Rightarrow> load_name ''best_valid_loss'')"

text \<open>\<open>os.path.join(dir, name)\<close> for a relative \<open>name\<close>.\<close>

definition path_join :: "string \<Rightarrow> string \<Rightarrow> string" where
  "path_join d name = (if d = [] \<or> last d = CHR ''/'' then d @ name else d @ ''/'' @ name)"

subsection \<open>Program state\<close>

text \<open>
  The state that \<open>main\<close> works on. Module objects live in \<open>heap\<close> and are named by their
  index, so that \<open>model\<close> and \<open>best_model\<close> are references: training updates the object
  \<open>model\<close> refers to in place, and \<open>copy.deepcopy\<close> allocates a new object. A local that
  the code assigns only on some paths is an option, \<open>None\<close> while it is unbound.
  \<open>disk\<close> lists the files written by \<open>torch.save\<close>, oldest first.
\<close>

record ('m, 'p, 'r, 'o) state =
  heap :: "'m list"
  rng :: 'r
  optimizer :: 'o
  disk :: "(string \<times> 'm) list"
  model :: nat
  best_loss :: pyfloat
  best_epoch :: nat
  patience_count :: int
  best_model :: "nat option"
  best_preds :: "'p option"
  epoch :: "nat option"

text \<open>
  The library code that \<open>main\<close> drives, as parameters: seeding the generators, listing and
  loading the patches (the body of \<open>EODataset.__init__\<close> after its assertion), wrapping a
  dataset in a \<open>DataLoader\<close>, creating the model and the optimizer, one sweep over the
  training batches (lines 276-286, which updates the model and the optimizer in place
  and draws the batch order from the random generator), one validation pass (lines
  288-295), which yields the epoch's score and predictions, and \<open>torch.save\<close>, which
  raises when the file cannot be written (\<open>None\<close> when it can).
\<close>

record ('m, 'p, 'r, 'o, 'd, 'l) library =
  seed :: "nat \<Rightarrow> nat \<Rightarrow> 'r"
  listdir :: "string \<Rightarrow> error + string list"
  load_patches :: "string \<Rightarrow> args \<Rightarrow> string list \<Rightarrow> 'r \<Rightarrow> error + ('d \<times> 'r)"
  DataLoader :: "'d option \<Rightarrow> int \<Rightarrow> bool \<Rightarrow> error + 'l"
  new_model :: "args \<Rightarrow> 'r \<Rightarrow> 'm \<times> 'r"
  new_optimizer :: "args \<Rightarrow> 'm \<Rightarrow> 'o"
  train :: "'l \<Rightarrow> 'm \<Rightarrow> 'o \<Rightarrow> 'r \<Rightarrow> error + ('m \<times> 'o \<times> 'r)"
  validate :: "'l \<Rightarrow> 'm \<Rightarrow> error + (pyfloat \<times> 'p)"
  torch_save :: "'m \<Rightarrow> string \<Rightarrow> error option"

subsection \<open>The training loop of main\<close>

text \<open>Lines 302-308: the early-stopping bookkeeping of one epoch.\<close>

definition early_stopping ::
  "pyfloat \<Rightarrow> 'p \<Rightarrow> ('m, 'p, 'r, 'o) state \<Rightarrow> ('m, 'p, 'r, 'o) state" where
  "early_stopping valid_loss preds st =
    (if float_less valid_loss (best_loss st)
     then st\<lparr>heap := heap st @ [heap st ! model st],
             best_model := Some (length (heap st)),
             best_preds := Some preds,
             best_loss := valid_loss,
             patience_count := 0\<rparr>
     else st\<lparr>patience_count := patience_count st + 1\<rparr>)"

text \<open>Lines 275-308: one iteration of the loop body, up to the stop test.\<close>

definition epoch_body ::
  "('m, 'p, 'r, 'o, 'd, 'l) library \<Rightarrow> 'l \<Rightarrow> 'l \<Rightarrow> args \<Rightarrow> nat \<Rightarrow> ('m, 'p, 'r, 'o) state
    \<Rightarrow> error + ('m, 'p, 'r, 'o) state" where
  "epoch_body lib train_loader valid_loader a e st0 =
    (let st1 = st0\<lparr>epoch := Some e\<rparr> in
     case train lib train_loader (heap st1 ! model st1) (optimizer st1) (rng st1) of
       Inl err \<Rightarrow> Inl err
     | Inr (m, opt, r) \<Rightarrow>
         let st2 = st1\<lparr>heap := (heap st1)[model st1 := m], optimizer := opt, rng := r\<rparr> in
         (case validate lib valid_loader (heap st2 ! model st2) of
            Inl err \<Rightarrow> Inl err
          | Inr (valid_loss, preds) \<Rightarrow>
              (case (if nni a then report_intermediate_result else Inr ()) of
                 Inl err \<Rightarrow> Inl err
               | Inr _ \<Rightarrow> Inr (early_stopping valid_loss preds st2))))"

text \<open>
  Lines 274-312: \<open>for epoch in range(args.max_epochs)\<close>, over the epochs still to run,
  with the \<open>break\<close> of line 312.
\<close>

fun training_loop ::
  "('m, 'p, 'r, 'o, 'd, 'l) library \<Rightarrow> 'l \<Rightarrow> 'l \<Rightarrow> args \<Rightarrow> nat list \<Rightarrow> ('m, 'p, 'r, 'o) state
    \<Rightarrow> error + ('m, 'p, 'r, 'o) state" where
  "training_loop lib train_loader valid_loader a [] st = Inr st"
| "training_loop lib train_loader valid_loader a (e # es) st =
    (case epoch_body lib train_loader valid_loader a e st of
       Inl err \<Rightarrow> Inl err
     | Inr st' \<Rightarrow>
         if patience_count st' = patience a then Inr st'
         else training_loop lib train_loader valid_loader a es st')"

subsection \<open>main\<close>

text \<open>
  \<open>EODataset.__init__\<close>: the \<open>test\<close> flag returns at once and leaves the object without
  its arrays (\<open>None\<close>); otherwise the directory is listed and the seed flag asserted
  before the patches are shuffled, loaded and sampled.
\<close>

definition EODataset_init ::
  "('m, 'p, 'r, 'o, 'd, 'l) library \<Rightarrow> string \<Rightarrow> args \<Rightarrow> 'r \<Rightarrow> error + ('d option \<times> 'r)" where
  "EODataset_init lib flag a r =
    (if flag = ''test'' then Inr (None, r)
     else case listdir lib (processed_data_dir a) of
       Inl err \<Rightarrow> Inl err
     | Inr f_patches \<Rightarrow>
         if \<not> fixed_random_seed a then Inl AssertionError
         else (case load_patches lib flag a f_patches r of
                 Inl err \<Rightarrow> Inl err
               | Inr (d, r') \<Rightarrow> Inr (Some d, r')))"

text \<open>
  Lines 247-272: seeding, the inference exit (\<open>None\<close>), datasets, loaders, model,
  optimizer and the initial values of the loop's variables. \<open>ambient\<close> is the state of the
  random generators when the process starts.
\<close>

definition main_setup ::
  "('m, 'p, 'r, 'o, 'd, 'l) library \<Rightarrow> args \<Rightarrow> 'r
    \<Rightarrow> error + (('m, 'p, 'r, 'o) state \<times> 'l \<times> 'l) option" where
  "main_setup lib a ambient =
    (let r0 = (if fixed_random_seed a then seed lib 2021 1407 else ambient) in
     if inference a then Inr None
     else case EODataset_init lib ''train'' a r0 of
       Inl err \<Rightarrow> Inl err
     | Inr (train_dataset, r1) \<Rightarrow>
     (case EODataset_init lib ''valid'' a r1 of
       Inl err \<Rightarrow> Inl err
     | Inr (valid_dataset, r2) \<Rightarrow>
     (case DataLoader lib train_dataset (batch_size a) True of
       Inl err \<Rightarrow> Inl err
     | Inr train_loader \<Rightarrow>
     (case DataLoader lib valid_dataset (batch_size a) False of
       Inl err \<Rightarrow> Inl err
     | Inr valid_loader \<Rightarrow>
         let (m, r3) = new_model lib a r2;
             opt = new_optimizer lib a m
         in Inr (Some (\<lparr>heap = [m], rng = r3, optimizer = opt, disk = [], model = 0,
                         best_loss = PosInf, best_epoch = 0, patience_count = 0,
                         best_model = None, best_preds = None, epoch = None\<rparr>,
                       train_loader, valid_loader))))))"

text \<open>Lines 247-312: everything up to the end of the loop.\<close>

definition main_training ::
  "('m, 'p, 'r, 'o, 'd, 'l) library \<Rightarrow> args \<Rightarrow> 'r \<Rightarrow> error + ('m, 'p, 'r, 'o) state option" where
  "main_training lib a ambient =
    (case main_setup lib a ambient of
       Inl err \<Rightarrow> Inl err
     | Inr None \<Rightarrow> Inr None
     | Inr (Some (st, train_loader, valid_loader)) \<Rightarrow>
         (case training_loop lib train_loader valid_loader a [0..<nat (max_epochs a)] st of
            Inl err \<Rightarrow> Inl err
          | Inr st' \<Rightarrow> Inr (Some st')))"

text \<open>
  Lines 314-319, after the loop: the final report and the save. The result is the
  exception raised, if any, and the state it leaves behind.
\<close>

definition main_finish ::
  "('m, 'p, 'r, 'o, 'd, 'l) library \<Rightarrow> args \<Rightarrow> ('m, 'p, 'r, 'o) state
    \<Rightarrow> error option \<times> ('m, 'p, 'r, 'o) state" where
  "main_finish lib a st =
    (case (if nni a then report_final_result else Inr ()) of
       Inl err \<Rightarrow> (Some err, st)
     | Inr _ \<Rightarrow>
         let save_model_path = path_join (target_dir a) ''best_model.pt'' in
         (case best_model st of
            None \<Rightarrow> (Some (UnboundLocalError ''best_model''), st)
          | Some b \<Rightarrow>
              (case torch_save lib (heap st ! b) save_model_path of
                 Some err \<Rightarrow> (Some err, st)
               | None \<Rightarrow> (None, st\<lparr>disk := disk st @ [(save_model_path, heap st ! b)]\<rparr>))))"

text \<open>\<open>main(args)\<close>: the exception it ends with, if any, and the files it has written.\<close>

definition main ::
  "('m, 'p, 'r, 'o, 'd, 'l) library \<Rightarrow> args \<Rightarrow> 'r \<Rightarrow> error option \<times> (string \<times> 'm) list" where
  "main lib a ambient =
    (case main_training lib a ambient of
       Inl err \<Rightarrow> (Some err, [])
     | Inr None \<Rightarrow> (None, [])
     | Inr (Some st) \<Rightarrow> (case main_finish lib a st of (res, st') \<Rightarrow> (res, disk st')))"

subsection \<open>A test double for the library\<close>

text \<open>
  Feeds a given sequence of validation scores to the loop: the model's parameters are
  the number of training sweeps done so far, and the validation pass of sweep \<open>k\<close> yields
  the \<open>k\<close>-th score (NaN once the sequence is used up), with the sweep number as its
  predictions. The state of the random generators is the pair of their seeds, and
  every file can be written.
\<close>

definition synthetic :: "pyfloat list \<Rightarrow> (nat, nat, nat \<times> nat, nat, unit, unit) library" where
  "synthetic scores =
    \<lparr>seed = (\<lambda>s1 s2. (s1, s2)),
     listdir = (\<lambda>_. Inr []),
     load_patches = (\<lambda>_ _ _ r. Inr ((), r)),
     DataLoader = (\<lambda>_ _ _. Inr ()),
     new_model = (\<lambda>_ r. (0, r)),
     new_optimizer = (\<lambda>_ _. 0),
     train = (\<lambda>_ m opt r. Inr (Suc m, opt, r)),
     validate = (\<lambda>_ m. Inr (if 0 < m \<and> m \<le> length scores then scores ! (m - 1) else NaN, m)),
     torch_save = (\<lambda>_ _. None)\<rparr>"

text \<open>The default configuration of model.py's parser.\<close>

definition default_args :: args where
  "default_args =
    \<lparr>processed_data_dir = ''/work/shared_data/2021-ai4eo/dev_data/default/'',
     target_dir = ''.'', n_valid_patches = 10, fixed_random_seed = True, inference = False,
     nni = False, learning_rate = 1 / 1000, batch_size = 64, max_epochs = 100, patience = 6\<rparr>"


text \<open>
  A state is well formed when its references point into the heap and the retained
  snapshot is an object of its own, not the model being trained.
\<close>

definition wf_state :: "('m, 'p, 'r, 'o) state \<Rightarrow> bool" where
  "wf_state st \<longleftrightarrow>
     model st < length (heap st) \<and>
     (\<forall>b. best_model st = Some b \<longrightarrow> b < length (heap st) \<and> b \<noteq> model st)"

text \<open>The parameters held by the retained best model, if there is one.\<close>

definition snapshot :: "('m, 'p, 'r, 'o) state \<Rightarrow> 'm option" where
  "snapshot st = map_option (\<lambda>b. heap st ! b) (best_model st)"

subsection \<open>The classification metric\<close>

text \<open>A numpy array of one or of two dimensions, the latter as its rows.\<close>

datatype ndarray = Array1 "pyfloat list" | Array2 "pyfloat list list"

text \<open>
  Modelled from the spec: \<open>sklearn.metrics.matthews_corrcoef\<close>, which \<open>predict\<close> calls on
  line 242, is library code and not part of the repository. The spec describes it as a
  correlation-based score that compares binarized predictions with the cultivated /
  non-cultivated labels, weighted per pixel, and that is zero where the correlation is
  undefined; the formula is the one the comment block of model.py spells out (lines
  86-91): weighted true and false positives and negatives, their cross difference over
  the root of the product of the four marginal sums. The function takes vectors: a
  target or prediction must be one-dimensional, or a single column, and hold the labels
  0 and 1 only; the weights must be one-dimensional and finite; all three must have
  the same number of entries. Anything else raises ValueError.
\<close>

definition weighted_count ::
  "(bool \<Rightarrow> bool \<Rightarrow> bool) \<Rightarrow> bool list \<Rightarrow> bool list \<Rightarrow> real list \<Rightarrow> real" where
  "weighted_count sel target pred weight =
    sum_list (map (\<lambda>(t, p, w). if sel t p then w else 0) (zip target (zip pred weight)))"

definition labels :: "pyfloat list \<Rightarrow> error + bool list" where
  "labels xs =
    (if \<forall>x \<in> set xs. x = Finite 0 \<or> x = Finite 1 then Inr (map (\<lambda>x. x = Finite 1) xs)
     else Inl ValueError)"

fun label_vector :: "ndarray \<Rightarrow> error + bool list" where
  "label_vector (Array1 xs) = labels xs"
| "label_vector (Array2 rows) =
    (if rows \<noteq> [] \<and> (\<forall>row \<in> set rows. length row = 1) then labels (concat rows)
     else Inl ValueError)"

fun finite_value :: "pyfloat \<Rightarrow> real option" where
  "finite_value (Finite r) = Some r"
| "finite_value _ = None"

fun weight_vector :: "ndarray \<Rightarrow> error + real list" where
  "weight_vector (Array1 ws) =
    (if \<forall>w \<in> set ws. finite_value w \<noteq> None then Inr (map (\<lambda>w. the (finite_value w)) ws)
     else Inl ValueError)"
| "weight_vector (Array2 rows) = Inl ValueError"

definition matthews_corrcoef :: "ndarray \<Rightarrow> ndarray \<Rightarrow> ndarray \<Rightarrow> error + real" where
  "matthews_corrcoef y_true y_pred sample_weight =
    (case label_vector y_true of
       Inl err \<Rightarrow> Inl err
     | Inr target \<Rightarrow>
     (case label_vector y_pred of
       Inl err \<Rightarrow> Inl err
     | Inr pred \<Rightarrow>
     (case weight_vector sample_weight of
       Inl err \<Rightarrow> Inl err
     | Inr weight \<Rightarrow>
         if length target \<noteq> length pred \<or> length target \<noteq> length weight then Inl ValueError
         else
           let tps = weighted_count (\<lambda>t p. t \<and> p) target pred weight;
               tns = weighted_count (\<lambda>t p. \<not> t \<and> \<not> p) target pred weight;
               fps = weighted_count (\<lambda>t p. \<not> t \<and> p) target pred weight;
               fns = weighted_count (\<lambda>t p. t \<and> \<not> p) target pred weight;
               numerator = tps * tns - fps * fns;
               spread = (tps + fps) * (tps + fns) * (tns + fps) * (tns + fns)
           in if spread \<le> 0 then Inr 0 else Inr (numerator / sqrt spread))))"

text \<open>
  \<open>torch.reshape(t, (n, -1))\<close> on the elements of a tensor, in order: \<open>n\<close> rows of equal
  length. It raises when \<open>n\<close> is zero or does not divide the number of elements.
\<close>

definition reshape_rows :: "nat \<Rightarrow> 'a list \<Rightarrow> error + 'a list list" where
  "reshape_rows n xs =
    (if n = 0 \<or> length xs mod n \<noteq> 0 then Inl RuntimeError
     else Inr (map (\<lambda>i. take (length xs div n) (drop (i * (length xs div n)) xs)) [0..<n]))"

text \<open>
  \<open>predict\<close> (lines 214-244), nested in \<open>main\<close>. A tensor is the list of its elements;
  \<open>inputs\<close> is the batch, one entry per sample. The model is run the same way in both
  modes of its \<open>eval_\<close> flag (\<open>eval_mode\<close>); its raw output, the target and the weight are each reshaped to two
  dimensions, one row per sample (lines 236-238), and passed on to the metric as they
  are.
\<close>

definition predict ::
  "'x list \<Rightarrow> pyfloat list \<Rightarrow> pyfloat list \<Rightarrow> ('x list \<Rightarrow> error + pyfloat list) \<Rightarrow> bool
    \<Rightarrow> error + real \<times> pyfloat list" where
  "predict inputs target weight mdl eval_mode =
    (case (if eval_mode then mdl inputs else mdl inputs) of
       Inl err \<Rightarrow> Inl err
     | Inr pred \<Rightarrow>
     let pred_values = pred in
     (case reshape_rows (length inputs) pred of
       Inl err \<Rightarrow> Inl err
     | Inr pred2 \<Rightarrow>
     (case reshape_rows (length inputs) target of
       Inl err \<Rightarrow> Inl err
     | Inr target2 \<Rightarrow>
     (case reshape_rows (length inputs) weight of
       Inl err \<Rightarrow> Inl err
     | Inr weight2 \<Rightarrow>
     (case matthews_corrcoef (Array2 target2) (Array2 pred2) (Array2 weight2) of
       Inl err \<Rightarrow> Inl err
     | Inr losses \<Rightarrow> Inr (losses, pred_values))))))"

section \<open>srresnet.py: the super-resolution network\<close>

subsection \<open>Tensors and library layers\<close>

text \<open>
  The network's hyperparameters in the argparse namespace of srresnet.py. Sizes and
  counts are natural numbers; the scale factor is any integer, since the constructor
  checks it.
\<close>

record sr_args =
  scaling_factor :: int
  n_channels :: nat
  input_channels :: nat
  large_kernel_size :: nat
  small_kernel_size :: nat
  n_blocks :: nat

text \<open>
  A batch of images: its size \<open>(N, channels, w, h)\<close>, in the order of the source's
  comments, and its elements by index.
\<close>

type_synonym idx = "nat \<times> nat \<times> nat \<times> nat"

record tensor =
  dims :: idx
  elem :: "idx \<Rightarrow> pyfloat"

text \<open>
  The torch.nn layers the script builds. A learned layer carries the function its
  current weights compute on the elements; its effect on the size is fixed by its
  hyperparameters. \<open>Conv2d\<close> lists input channels, output channels, kernel size, stride
  and padding.
\<close>

datatype layer =
    Conv2d nat nat nat nat nat "tensor \<Rightarrow> idx \<Rightarrow> pyfloat"
  | BatchNorm2d nat "bool \<Rightarrow> tensor \<Rightarrow> idx \<Rightarrow> pyfloat"
  | PReLU pyfloat
  | LeakyReLU pyfloat
  | Tanh
  | PixelShuffle nat
  | Sigmoid

text \<open>
  Applying one layer, in training or evaluation mode. A convolution needs the channel
  count it was built for, channels on both sides, and a padded input no smaller than its
  kernel; batch
  normalisation in training mode needs more than one value per channel; the pixel
  shuffle moves \<open>r * r\<close> channels into an \<open>r\<close> by \<open>r\<close> block of pixels.
\<close>

fun apply_layer :: "bool \<Rightarrow> layer \<Rightarrow> tensor \<Rightarrow> error + tensor" where
  "apply_layer training (Conv2d cin cout k s p f) x =
    (case dims x of (n, c, w, h) \<Rightarrow>
       if c \<noteq> cin \<or> cin = 0 \<or> cout = 0 \<or> k = 0 \<or> s = 0 \<or> w + 2 * p < k \<or> h + 2 * p < k
       then Inl RuntimeError
       else Inr \<lparr>dims = (n, cout, (w + 2 * p - k) div s + 1, (h + 2 * p - k) div s + 1),
                 elem = f x\<rparr>)"
| "apply_layer training (BatchNorm2d num_features g) x =
    (case dims x of (n, c, w, h) \<Rightarrow>
       if training \<and> n * w * h = 1 then Inl ValueError
       else if c \<noteq> num_features then Inl RuntimeError
       else Inr \<lparr>dims = dims x, elem = g training x\<rparr>)"
| "apply_layer training (PReLU a) x =
    Inr (x\<lparr>elem := (\<lambda>i. float_prelu a (elem x i))\<rparr>)"
| "apply_layer training (LeakyReLU a) x =
    Inr (x\<lparr>elem := (\<lambda>i. float_prelu a (elem x i))\<rparr>)"
| "apply_layer training Tanh x = Inr (x\<lparr>elem := (\<lambda>i. float_tanh (elem x i))\<rparr>)"
| "apply_layer training (PixelShuffle r) x =
    (case dims x of (n, c, w, h) \<Rightarrow>
       if r = 0 \<or> c mod (r * r) \<noteq> 0 then Inl RuntimeError
       else Inr \<lparr>dims = (n, c div (r * r), w * r, h * r),
                 elem = (\<lambda>(b, ch, i, j).
                   elem x (b, ch * (r * r) + (i mod r) * r + j mod r, i div r, j div r))\<rparr>)"
| "apply_layer training Sigmoid x = Inr (x\<lparr>elem := (\<lambda>i. float_sigmoid (elem x i))\<rparr>)"

text \<open>\<open>nn.Sequential\<close>: the modules in order, each by its own forward function.\<close>

fun Sequential :: "('b \<Rightarrow> tensor \<Rightarrow> error + tensor) \<Rightarrow> 'b list \<Rightarrow> tensor \<Rightarrow> error + tensor" where
  "Sequential forward [] x = Inr x"
| "Sequential forward (b # bs) x =
    (case forward b x of Inl err \<Rightarrow> Inl err | Inr y \<Rightarrow> Sequential forward bs y)"

text \<open>Elementwise addition of two batches, with torch's broadcasting of sizes.\<close>

definition broadcast_dim :: "nat \<Rightarrow> nat \<Rightarrow> nat option" where
  "broadcast_dim a b =
    (if a = b then Some a else if a = 1 then Some b else if b = 1 then Some a else None)"

definition broadcast_index :: "nat \<Rightarrow> nat \<Rightarrow> nat" where
  "broadcast_index a i = (if a = 1 then 0 else i)"

definition tensor_add :: "tensor \<Rightarrow> tensor \<Rightarrow> error + tensor" where
  "tensor_add x y =
    (case (dims x, dims y) of ((a1, a2, a3, a4), (b1, b2, b3, b4)) \<Rightarrow>
       (case (broadcast_dim a1 b1, broadcast_dim a2 b2, broadcast_dim a3 b3, broadcast_dim a4 b4) of
          (Some d1, Some d2, Some d3, Some d4) \<Rightarrow>
            Inr \<lparr>dims = (d1, d2, d3, d4),
                 elem = (\<lambda>(i1, i2, i3, i4).
                   float_add
                     (elem x (broadcast_index a1 i1, broadcast_index a2 i2,
                              broadcast_index a3 i3, broadcast_index a4 i4))
                     (elem y (broadcast_index b1 i1, broadcast_index b2 i2,
                              broadcast_index b3 i3, broadcast_index b4 i4)))\<rparr>
        | _ \<Rightarrow> Inl RuntimeError))"

text \<open>\<open>str.lower\<close> on ASCII letters.\<close>

definition lower_char :: "char \<Rightarrow> char" where
  "lower_char c =
    (case map_of (zip ''ABCDEFGHIJKLMNOPQRSTUVWXYZ'' ''abcdefghijklmnopqrstuvwxyz'') c of
       Some d \<Rightarrow> d | None \<Rightarrow> c)"

definition lower :: "string \<Rightarrow> string" where
  "lower s = map lower_char s"

text \<open>\<open>int(math.log2(x))\<close>: the logarithm is defined on positive numbers only.\<close>

fun floor_log2 :: "nat \<Rightarrow> nat" where
  "floor_log2 n = (if n < 2 then 0 else Suc (floor_log2 (n div 2)))"

declare floor_log2.simps [simp del]

definition int_log2 :: "int \<Rightarrow> error + nat" where
  "int_log2 x = (if x \<le> 0 then Inl ValueError else Inr (floor_log2 (nat x)))"

text \<open>Evaluating a list comprehension whose elements may raise: the first exception wins.\<close>

fun collect :: "(error + 'a) list \<Rightarrow> error + 'a list" where
  "collect [] = Inr []"
| "collect (Inl err # rs) = Inl err"
| "collect (Inr v # rs) = (case collect rs of Inl err \<Rightarrow> Inl err | Inr vs \<Rightarrow> Inr (v # vs))"

subsection \<open>The blocks\<close>

text \<open>The learned parts of one block: its filter, its normalisation and its PReLU slope.\<close>

record learned =
  conv_filter :: "tensor \<Rightarrow> idx \<Rightarrow> pyfloat"
  bn_map :: "bool \<Rightarrow> tensor \<Rightarrow> idx \<Rightarrow> pyfloat"
  prelu_weight :: pyfloat

record ConvolutionalBlock =
  conv_block :: "layer list"

definition ConvolutionalBlock_init ::
  "learned \<Rightarrow> nat \<Rightarrow> nat \<Rightarrow> nat \<Rightarrow> nat \<Rightarrow> bool \<Rightarrow> string option \<Rightarrow> error + ConvolutionalBlock" where
  "ConvolutionalBlock_init w in_channels out_channels kernel_size stride batch_norm activation =
    (let activation = map_option lower activation in
     if (case activation of None \<Rightarrow> False
         | Some act \<Rightarrow> act \<notin> {''prelu'', ''leakyrelu'', ''tanh''})
     then Inl AssertionError
     else Inr \<lparr>conv_block =
       [Conv2d in_channels out_channels kernel_size stride (kernel_size div 2) (conv_filter w)] @
       (if batch_norm then [BatchNorm2d out_channels (bn_map w)] else []) @
       (if activation = Some ''prelu'' then [PReLU (prelu_weight w)]
        else if activation = Some ''leakyrelu'' then [LeakyReLU (Finite (2 / 10))]
        else if activation = Some ''tanh'' then [Tanh]
        else [])\<rparr>)"

definition ConvolutionalBlock_forward ::
  "bool \<Rightarrow> ConvolutionalBlock \<Rightarrow> tensor \<Rightarrow> error + tensor" where
  "ConvolutionalBlock_forward training blk input =
    Sequential (apply_layer training) (conv_block blk) input"

record SubPixelConvolutionalBlock =
  conv :: layer
  pixel_shuffle :: layer
  prelu :: layer

definition SubPixelConvolutionalBlock_init ::
  "learned \<Rightarrow> sr_args \<Rightarrow> nat \<Rightarrow> SubPixelConvolutionalBlock" where
  "SubPixelConvolutionalBlock_init w args factor =
    \<lparr>conv = Conv2d (n_channels args) (n_channels args * factor ^ 2) (small_kernel_size args) 1
              (small_kernel_size args div 2) (conv_filter w),
     pixel_shuffle = PixelShuffle factor,
     prelu = PReLU (prelu_weight w)\<rparr>"

definition SubPixelConvolutionalBlock_forward ::
  "bool \<Rightarrow> SubPixelConvolutionalBlock \<Rightarrow> tensor \<Rightarrow> error + tensor" where
  "SubPixelConvolutionalBlock_forward training blk input =
    (case apply_layer training (conv blk) input of
       Inl err \<Rightarrow> Inl err
     | Inr output1 \<Rightarrow>
         (case apply_layer training (pixel_shuffle blk) output1 of
            Inl err \<Rightarrow> Inl err
          | Inr output2 \<Rightarrow> apply_layer training (prelu blk) output2))"

record ResidualBlock =
  rb_conv_block1 :: ConvolutionalBlock
  rb_conv_block2 :: ConvolutionalBlock

definition ResidualBlock_init :: "learned \<times> learned \<Rightarrow> sr_args \<Rightarrow> error + ResidualBlock" where
  "ResidualBlock_init w args =
    (case ConvolutionalBlock_init (fst w) (n_channels args) (n_channels args)
            (small_kernel_size args) 1 True (Some ''PReLu'') of
       Inl err \<Rightarrow> Inl err
     | Inr b1 \<Rightarrow>
         (case ConvolutionalBlock_init (snd w) (n_channels args) (n_channels args)
                 (small_kernel_size args) 1 True None of
            Inl err \<Rightarrow> Inl err
          | Inr b2 \<Rightarrow> Inr \<lparr>rb_conv_block1 = b1, rb_conv_block2 = b2\<rparr>))"

definition ResidualBlock_forward :: "bool \<Rightarrow> ResidualBlock \<Rightarrow> tensor \<Rightarrow> error + tensor" where
  "ResidualBlock_forward training blk input =
    (let residual = input in
     case ConvolutionalBlock_forward training (rb_conv_block1 blk) input of
       Inl err \<Rightarrow> Inl err
     | Inr output1 \<Rightarrow>
         (case ConvolutionalBlock_forward training (rb_conv_block2 blk) output1 of
            Inl err \<Rightarrow> Inl err
          | Inr output2 \<Rightarrow> tensor_add output2 residual))"

subsection \<open>SRResNet\<close>

text \<open>The learned parts of the whole network, block by block.\<close>

record sr_params =
  p_conv_block1 :: learned
  p_residual_blocks :: "nat \<Rightarrow> learned \<times> learned"
  p_conv_block2 :: learned
  p_subpixel_blocks :: "nat \<Rightarrow> learned"
  p_conv_block3 :: learned

record SRResNet =
  conv_block1 :: ConvolutionalBlock
  residual_blocks :: "ResidualBlock list"
  conv_block2 :: ConvolutionalBlock
  subpixel_convolutional_blocks :: "SubPixelConvolutionalBlock list"
  conv_block3 :: ConvolutionalBlock
  sigmoid :: layer

text \<open>\<open>SRResNet.__init__\<close>: the assertion on the scale factor comes before any block is built.\<close>

definition SRResNet_init :: "sr_params \<Rightarrow> sr_args \<Rightarrow> error + SRResNet" where
  "SRResNet_init w args =
    (let factor = scaling_factor args in
     if factor \<notin> {2, 4, 8} then Inl AssertionError
     else case ConvolutionalBlock_init (p_conv_block1 w) (input_channels args) (n_channels args)
                 (large_kernel_size args) 1 False (Some ''PReLu'') of
       Inl err \<Rightarrow> Inl err
     | Inr b1 \<Rightarrow>
     (case collect (map (\<lambda>i. ResidualBlock_init (p_residual_blocks w i) args)
                     [0..<n_blocks args]) of
       Inl err \<Rightarrow> Inl err
     | Inr rbs \<Rightarrow>
     (case ConvolutionalBlock_init (p_conv_block2 w) (n_channels args) (n_channels args)
             (small_kernel_size args) 1 True None of
       Inl err \<Rightarrow> Inl err
     | Inr b2 \<Rightarrow>
     (case int_log2 (scaling_factor args) of
       Inl err \<Rightarrow> Inl err
     | Inr n_subpixel_convolutional_blocks \<Rightarrow>
         let sbs = map (\<lambda>i. SubPixelConvolutionalBlock_init (p_subpixel_blocks w i) args 2)
                     [0..<n_subpixel_convolutional_blocks]
         in (case ConvolutionalBlock_init (p_conv_block3 w) (n_channels args) 1
                    (large_kernel_size args) 1 False (Some ''Tanh'') of
               Inl err \<Rightarrow> Inl err
             | Inr b3 \<Rightarrow>
                 Inr \<lparr>conv_block1 = b1, residual_blocks = rbs, conv_block2 = b2,
                      subpixel_convolutional_blocks = sbs, conv_block3 = b3,
                      sigmoid = Sigmoid\<rparr>)))))"

text \<open>\<open>SRResNet.forward\<close>, in the mode the module is in.\<close>

definition SRResNet_forward :: "bool \<Rightarrow> SRResNet \<Rightarrow> tensor \<Rightarrow> error + tensor" where
  "SRResNet_forward training net lr_imgs =
    (case ConvolutionalBlock_forward training (conv_block1 net) lr_imgs of
       Inl err \<Rightarrow> Inl err
     | Inr output1 \<Rightarrow>
     let residual = output1 in
     (case Sequential (ResidualBlock_forward training) (residual_blocks net) output1 of
       Inl err \<Rightarrow> Inl err
     | Inr output2 \<Rightarrow>
     (case ConvolutionalBlock_forward training (conv_block2 net) output2 of
       Inl err \<Rightarrow> Inl err
     | Inr output3 \<Rightarrow>
     (case tensor_add output3 residual of
       Inl err \<Rightarrow> Inl err
     | Inr output4 \<Rightarrow>
     (case Sequential (SubPixelConvolutionalBlock_forward training)
             (subpixel_convolutional_blocks net) output4 of
       Inl err \<Rightarrow> Inl err
     | Inr output5 \<Rightarrow>
     (case ConvolutionalBlock_forward training (conv_block3 net) output5 of
       Inl err \<Rightarrow> Inl err
     | Inr sr_imgs \<Rightarrow> apply_layer training (sigmoid net) sr_imgs))))))"


text \<open>Building the network and running one forward pass, as the script does with a model.\<close>

definition SRResNet_run :: "bool \<Rightarrow> sr_params \<Rightarrow> sr_args \<Rightarrow> tensor \<Rightarrow> error + tensor" where
  "SRResNet_run training w args lr_imgs =
    (case SRResNet_init w args of
       Inl err \<Rightarrow> Inl err
     | Inr net \<Rightarrow> SRResNet_forward training net lr_imgs)"

text \<open>One element of a result.\<close>

definition element_at :: "idx \<Rightarrow> error + tensor \<Rightarrow> error + pyfloat" where
  "element_at i r = map_sum id (\<lambda>y. elem y i) r"

text \<open>A result is a batch of a given size.\<close>

definition has_dims :: "error + tensor \<Rightarrow> idx \<Rightarrow> bool" where
  "has_dims r d \<longleftrightarrow> (\<exists>y. r = Inr y \<and> dims y = d)"

subsection \<open>Test data\<close>

text \<open>
  The parser's defaults, an all-zero batch and all-zero weights (PReLU slope 0.25); then
  finite weights with which every filter passes on the first channel of its input at the
  same pixel and every normalisation is the identity, and a batch of NaN pixels.
\<close>

definition default_sr_args :: sr_args where
  "default_sr_args =
    \<lparr>scaling_factor = 4, n_channels = 64, input_channels = 3,
     large_kernel_size = 9, small_kernel_size = 3, n_blocks = 16\<rparr>"

definition zero_tensor :: "idx \<Rightarrow> tensor" where
  "zero_tensor d = \<lparr>dims = d, elem = (\<lambda>_. Finite 0)\<rparr>"

definition zero_learned :: learned where
  "zero_learned =
    \<lparr>conv_filter = (\<lambda>_ _. Finite 0), bn_map = (\<lambda>_ _ _. Finite 0),
     prelu_weight = Finite (1 / 4)\<rparr>"

definition zero_params :: sr_params where
  "zero_params =
    \<lparr>p_conv_block1 = zero_learned,
     p_residual_blocks = (\<lambda>_. (zero_learned, zero_learned)),
     p_conv_block2 = zero_learned,
     p_subpixel_blocks = (\<lambda>_. zero_learned),
     p_conv_block3 = zero_learned\<rparr>"

definition copy_learned :: learned where
  "copy_learned =
    \<lparr>conv_filter = (\<lambda>x (b, c, i, j). elem x (b, 0, i, j)), bn_map = (\<lambda>_ x. elem x),
     prelu_weight = Finite (1 / 4)\<rparr>"

definition copy_params :: sr_params where
  "copy_params =
    \<lparr>p_conv_block1 = copy_learned,
     p_residual_blocks = (\<lambda>_. (copy_learned, copy_learned)),
     p_conv_block2 = copy_learned,
     p_subpixel_blocks = (\<lambda>_. copy_learned),
     p_conv_block3 = copy_learned\<rparr>"

definition nan_tensor :: "idx \<Rightarrow> tensor" where
  "nan_tensor d = \<lparr>dims = d, elem = (\<lambda>_. NaN)\<rparr>"

section \<open>Properties of the training loop\<close>

subsection \<open>One epoch\<close>

lemma epoch_body_Inr:
  assumes "train lib trl (heap st ! model st) (optimizer st) (rng st) = Inr (m, opt, r)"
    and "validate lib val ((heap st)[model st := m] ! model st) = Inr (v, preds)"
    and "\<not> nni a"
  shows "epoch_body lib trl val a e st =
     Inr (early_stopping v preds
            (st\<lparr>epoch := Some e, heap := (heap st)[model st := m], optimizer := opt, rng := r\<rparr>))"
  using assms by (simp add: epoch_body_def Let_def)

lemma epoch_body_synthetic:
  assumes "\<not> nni a" "model st < length (heap st)" "heap st ! model st = k" "k < length scores"
  shows "epoch_body (synthetic scores) trl val a e st =
     Inr (early_stopping (scores ! k) (Suc k)
            (st\<lparr>epoch := Some e, heap := (heap st)[model st := Suc k]\<rparr>))"
  using assms by (simp add: epoch_body_def synthetic_def Let_def)

lemma patience_count_epoch_body:
  "epoch_body lib trl val a e st = Inr st' \<Longrightarrow> 0 \<le> patience_count st \<Longrightarrow>
     0 \<le> patience_count st' \<and> epoch st' = Some e"
  by (auto simp add: epoch_body_def early_stopping_def Let_def
      split: sum.splits if_splits prod.splits)

lemma disk_epoch_body:
  "epoch_body lib trl val a e st = Inr st' \<Longrightarrow> disk st' = disk st"
  by (auto simp add: epoch_body_def early_stopping_def Let_def
      split: sum.splits if_splits prod.splits)

lemma epoch_body_total:
  assumes "\<not> nni a"
    and "\<forall>l m opt r. \<exists>y. train lib l m opt r = Inr y"
    and "\<forall>l m. \<exists>y. validate lib l m = Inr y"
  shows "\<exists>st'. epoch_body lib trl val a e st = Inr st'"
proof -
  obtain m opt r where
    t: "train lib trl (heap st ! model st) (optimizer st) (rng st) = Inr (m, opt, r)"
    using assms(2) by (metis prod_cases3)
  obtain v preds where
    v: "validate lib val ((heap st)[model st := m] ! model st) = Inr (v, preds)"
    using assms(3) by (metis surj_pair)
  show ?thesis using epoch_body_Inr[OF t v assms(1)] by blast
qed

subsection \<open>The loop\<close>

text \<open>
  A run of stagnant epochs: with \<open>d\<close> epochs of patience left and the next \<open>d\<close> scores
  none below the best one, the loop leaves after the \<open>d\<close>-th of them and touches nothing
  but the model under training and the counter.
\<close>

lemma stagnant_run:
  assumes "\<not> nni a" "model st < length (heap st)" "heap st ! model st = k"
    and "patience a = patience_count st + int d" "0 < d" "d \<le> length es"
    and "k + d \<le> length scores"
    and "\<forall>j<d. \<not> float_less (scores ! (k + j)) (best_loss st)"
  shows "training_loop (synthetic scores) trl val a es st =
     Inr (st\<lparr>epoch := Some (es ! (d - 1)), heap := (heap st)[model st := k + d],
             patience_count := patience a\<rparr>)"
  using assms
proof (induction es arbitrary: st k d)
  case Nil
  then show ?case by simp
next
  case (Cons e es)
  let ?st1 = "st\<lparr>epoch := Some e, heap := (heap st)[model st := Suc k],
                 patience_count := patience_count st + 1\<rparr>"
  have k: "k < length scores" using Cons.prems by simp
  have stag: "\<not> float_less (scores ! k) (best_loss st)"
    using Cons.prems(8) Cons.prems(5) by (metis add.right_neutral)
  have body: "epoch_body (synthetic scores) trl val a e st = Inr ?st1"
    using epoch_body_synthetic[OF Cons.prems(1) Cons.prems(2) Cons.prems(3) k, of trl val e] stag
    by (simp add: early_stopping_def)
  show ?case
  proof (cases "d = 1")
    case True
    then show ?thesis using body Cons.prems(4) by simp
  next
    case False
    then obtain d' where d': "d = Suc d'" "0 < d'" using Cons.prems(5) by (cases d) auto
    have nostop: "patience_count ?st1 \<noteq> patience a" using Cons.prems(4) d' by simp
    have "training_loop (synthetic scores) trl val a es ?st1 =
      Inr (?st1\<lparr>epoch := Some (es ! (d' - 1)), heap := (heap ?st1)[model ?st1 := Suc k + d'],
             patience_count := patience a\<rparr>)"
    proof (rule Cons.IH)
      show "\<not> nni a" by (rule Cons.prems(1))
      show "model ?st1 < length (heap ?st1)" using Cons.prems(2) by simp
      show "heap ?st1 ! model ?st1 = Suc k" using Cons.prems(2) by simp
      show "patience a = patience_count ?st1 + int d'" using Cons.prems(4) d' by simp
      show "0 < d'" by (rule d')
      show "d' \<le> length es" using Cons.prems(6) d' by simp
      show "Suc k + d' \<le> length scores" using Cons.prems(7) d' by simp
      show "\<forall>j<d'. \<not> float_less (scores ! (Suc k + j)) (best_loss ?st1)"
        using Cons.prems(8) d' by auto
    qed
    then show ?thesis using body nostop d' by simp
  qed
qed

lemma training_loop_no_break:
  assumes "patience a < 0" "0 \<le> patience_count st" "training_loop lib trl val a es st = Inr st'"
  shows "0 \<le> patience_count st' \<and> (es \<noteq> [] \<longrightarrow> epoch st' = Some (last es))"
  using assms
proof (induction es arbitrary: st)
  case Nil
  then show ?case by simp
next
  case (Cons e es)
  from Cons.prems(3) obtain st1 where
    body: "epoch_body lib trl val a e st = Inr st1"
    by (auto split: sum.splits)
  from patience_count_epoch_body[OF body Cons.prems(2)]
  have pc: "0 \<le> patience_count st1" and ep: "epoch st1 = Some e" by simp_all
  have ne: "patience_count st1 \<noteq> patience a" using pc Cons.prems(1) by simp
  have rest: "training_loop lib trl val a es st1 = Inr st'"
    using Cons.prems(3) body ne by simp
  show ?case
  proof (cases es)
    case Nil
    then show ?thesis using rest pc ep by simp
  next
    case (Cons e' es')
    then show ?thesis using Cons.IH[OF Cons.prems(1) pc rest] by simp
  qed
qed

lemma training_loop_total:
  assumes "\<not> nni a"
    and "\<forall>l m opt r. \<exists>y. train lib l m opt r = Inr y"
    and "\<forall>l m. \<exists>y. validate lib l m = Inr y"
  shows "\<exists>st'. training_loop lib trl val a es st = Inr st'"
proof (induction es arbitrary: st)
  case Nil
  then show ?case by simp
next
  case (Cons e es)
  obtain st1 where b: "epoch_body lib trl val a e st = Inr st1"
    using epoch_body_total[OF assms] by blast
  obtain st2 where "training_loop lib trl val a es st1 = Inr st2"
    using Cons.IH[of st1] by blast
  then show ?case using b by simp
qed

lemma disk_training_loop:
  "training_loop lib trl val a es st = Inr st' \<Longrightarrow> disk st' = disk st"
proof (induction es arbitrary: st)
  case Nil
  then show ?case by simp
next
  case (Cons e es)
  from Cons.prems obtain st1 where
    body: "epoch_body lib trl val a e st = Inr st1"
    by (auto split: sum.splits)
  show ?case
  proof (cases "patience_count st1 = patience a")
    case True
    then show ?thesis using Cons.prems body disk_epoch_body[OF body] by simp
  next
    case False
    then have "training_loop lib trl val a es st1 = Inr st'" using Cons.prems body by simp
    from Cons.IH[OF this] show ?thesis using disk_epoch_body[OF body] by simp
  qed
qed

lemma disk_main_setup:
  assumes "main_setup lib a ambient = Inr (Some (st, trl, val))"
  shows "disk st = []"
proof (cases "inference a")
  case True
  then show ?thesis using assms by (simp add: main_setup_def)
next
  case False
  let ?r0 = "if fixed_random_seed a then seed lib 2021 1407 else ambient"
  from assms False obtain d1 r1 where 1: "EODataset_init lib ''train'' a ?r0 = Inr (d1, r1)"
    by (cases "EODataset_init lib ''train'' a ?r0") (auto simp add: main_setup_def)
  from assms False 1 obtain d2 r2 where 2: "EODataset_init lib ''valid'' a r1 = Inr (d2, r2)"
    by (cases "EODataset_init lib ''valid'' a r1") (auto simp add: main_setup_def)
  from assms False 1 2 obtain l1 where 3: "DataLoader lib d1 (batch_size a) True = Inr l1"
    by (cases "DataLoader lib d1 (batch_size a) True") (auto simp add: main_setup_def)
  from assms False 1 2 3 obtain l2 where 4: "DataLoader lib d2 (batch_size a) False = Inr l2"
    by (cases "DataLoader lib d2 (batch_size a) False") (auto simp add: main_setup_def)
  obtain m r3 where 5: "new_model lib a r2 = (m, r3)" by (cases "new_model lib a r2")
  show ?thesis using assms False 1 2 3 4 5 by (auto simp add: main_setup_def)
qed

lemma wf_state_main_setup:
  assumes "main_setup lib a ambient = Inr (Some (st, trl, val))"
  shows "wf_state st \<and> patience_count st = 0 \<and> best_loss st = PosInf"
proof (cases "inference a")
  case True
  then show ?thesis using assms by (simp add: main_setup_def)
next
  case False
  let ?r0 = "if fixed_random_seed a then seed lib 2021 1407 else ambient"
  from assms False obtain d1 r1 where 1: "EODataset_init lib ''train'' a ?r0 = Inr (d1, r1)"
    by (cases "EODataset_init lib ''train'' a ?r0") (auto simp add: main_setup_def)
  from assms False 1 obtain d2 r2 where 2: "EODataset_init lib ''valid'' a r1 = Inr (d2, r2)"
    by (cases "EODataset_init lib ''valid'' a r1") (auto simp add: main_setup_def)
  from assms False 1 2 obtain l1 where 3: "DataLoader lib d1 (batch_size a) True = Inr l1"
    by (cases "DataLoader lib d1 (batch_size a) True") (auto simp add: main_setup_def)
  from assms False 1 2 3 obtain l2 where 4: "DataLoader lib d2 (batch_size a) False = Inr l2"
    by (cases "DataLoader lib d2 (batch_size a) False") (auto simp add: main_setup_def)
  obtain m r3 where 5: "new_model lib a r2 = (m, r3)" by (cases "new_model lib a r2")
  show ?thesis using assms False 1 2 3 4 5 by (auto simp add: main_setup_def wf_state_def)
qed

lemma disk_main_training:
  assumes "main_training lib a ambient = Inr (Some st)"
  shows "disk st = []"
proof -
  from assms obtain st0 trl val where
    s: "main_setup lib a ambient = Inr (Some (st0, trl, val))"
    and l: "training_loop lib trl val a [0..<nat (max_epochs a)] st0 = Inr st"
    by (auto simp add: main_training_def split: sum.splits option.splits)
  show ?thesis using disk_training_loop[OF l] disk_main_setup[OF s] by simp
qed

lemma upt_5: "[0..<5] = [0, 1, 2, 3, 4]"
  by (simp add: upt_rec)

lemma spec_example_run:
  "main_training (synthetic [Finite 0.5, Finite 0.4, Finite 0.6, Finite 0.6, Finite 0.6])
     (default_args\<lparr>max_epochs := 5, patience := 2\<rparr>) ambient =
   Inr (Some \<lparr>heap = [4, 1, 2], rng = (2021, 1407), optimizer = 0, disk = [], model = 0,
               best_loss = Finite 0.4, best_epoch = 0, patience_count = 2,
               best_model = Some 2, best_preds = Some 2, epoch = Some 3\<rparr>)"
  by (simp add: main_training_def main_setup_def EODataset_init_def synthetic_def
      default_args_def upt_5 epoch_body_def early_stopping_def Let_def)

subsection \<open>The claims about the loop\<close>

text \<open>
  C1, as the code has it. The loop minimises: an epoch improves exactly when its score
  is strictly below the best one so far, which starts at plus infinity. On the scores
  0.5, 0.4, 0.6, 0.6, 0.6 with patience 2 the best score is 0.4, from the second epoch
  (the snapshot is the model after two sweeps), and the loop stops after the fourth epoch
  (index 3), whatever the state of the random generators. In general, for scores fed to
  the loop one per epoch: an epoch whose score is below the best replaces the best and
  zeroes the counter, any other epoch adds one to the counter; and when the next \<open>d\<close>
  scores are all stagnant, \<open>d\<close> being what is left of the patience, the loop stops after
  exactly \<open>d\<close> more epochs with the best score and snapshot it had.
\<close>

theorem early_stopping_minimises_score:
  "(\<forall>ambient.
      main_training (synthetic [Finite 0.5, Finite 0.4, Finite 0.6, Finite 0.6, Finite 0.6])
        (default_args\<lparr>max_epochs := 5, patience := 2\<rparr>) ambient =
      Inr (Some \<lparr>heap = [4, 1, 2], rng = (2021, 1407), optimizer = 0, disk = [], model = 0,
                  best_loss = Finite 0.4, best_epoch = 0, patience_count = 2,
                  best_model = Some 2, best_preds = Some 2, epoch = Some 3\<rparr>)) \<and>
   (\<forall>scores a st k trl val e es.
      \<not> nni a \<and> model st < length (heap st) \<and> heap st ! model st = k \<and> k < length scores \<longrightarrow>
      (\<exists>st'. epoch_body (synthetic scores) trl val a e st = Inr st' \<and>
         (if float_less (scores ! k) (best_loss st)
          then best_loss st' = scores ! k \<and> patience_count st' = 0 \<and>
               snapshot st' = Some (Suc k)
          else best_loss st' = best_loss st \<and>
               patience_count st' = patience_count st + 1)) \<and>
      (\<forall>d. 0 < d \<and> patience a = patience_count st + int d \<and> d \<le> length es \<and>
           k + d \<le> length scores \<and>
           (\<forall>j<d. \<not> float_less (scores ! (k + j)) (best_loss st)) \<longrightarrow>
           training_loop (synthetic scores) trl val a es st =
             Inr (st\<lparr>epoch := Some (es ! (d - 1)), heap := (heap st)[model st := k + d],
                     patience_count := patience a\<rparr>)))"
proof (intro conjI allI impI)
  fix ambient :: "nat \<times> nat"
  show "main_training (synthetic [Finite 0.5, Finite 0.4, Finite 0.6, Finite 0.6, Finite 0.6])
        (default_args\<lparr>max_epochs := 5, patience := 2\<rparr>) ambient =
      Inr (Some \<lparr>heap = [4, 1, 2], rng = (2021, 1407), optimizer = 0, disk = [], model = 0,
                  best_loss = Finite 0.4, best_epoch = 0, patience_count = 2,
                  best_model = Some 2, best_preds = Some 2, epoch = Some 3\<rparr>)"
    by (rule spec_example_run)
next
  fix scores :: "pyfloat list" and a :: args and st :: "(nat, nat, nat \<times> nat, nat) state"
    and k and trl val :: unit and e
  assume h: "\<not> nni a \<and> model st < length (heap st) \<and> heap st ! model st = k \<and> k < length scores"
  then have body: "epoch_body (synthetic scores) trl val a e st =
     Inr (early_stopping (scores ! k) (Suc k)
            (st\<lparr>epoch := Some e, heap := (heap st)[model st := Suc k]\<rparr>))"
    using epoch_body_synthetic[of a st k scores trl val e] by simp
  show "\<exists>st'. epoch_body (synthetic scores) trl val a e st = Inr st' \<and>
         (if float_less (scores ! k) (best_loss st)
          then best_loss st' = scores ! k \<and> patience_count st' = 0 \<and>
               snapshot st' = Some (Suc k)
          else best_loss st' = best_loss st \<and>
               patience_count st' = patience_count st + 1)"
    using h unfolding body by (simp add: early_stopping_def snapshot_def nth_append)
next
  fix scores :: "pyfloat list" and a :: args and st :: "(nat, nat, nat \<times> nat, nat) state"
    and k and trl val :: unit and es :: "nat list" and d
  assume h: "\<not> nni a \<and> model st < length (heap st) \<and> heap st ! model st = k \<and> k < length scores"
    and d: "0 < d \<and> patience a = patience_count st + int d \<and> d \<le> length es \<and>
           k + d \<le> length scores \<and>
           (\<forall>j<d. \<not> float_less (scores ! (k + j)) (best_loss st))"
  show "training_loop (synthetic scores) trl val a es st =
             Inr (st\<lparr>epoch := Some (es ! (d - 1)), heap := (heap st)[model st := k + d],
                     patience_count := patience a\<rparr>)"
    by (rule stagnant_run) (use h d in simp_all)
qed

text \<open>
  The general part at work on the example: after its second epoch the state has best
  score 0.4 and counter 0, the two scores that follow are stagnant, and the loop stops
  after the fourth epoch.
\<close>

theorem early_stopping_minimises_score_witness:
  "training_loop (synthetic [Finite 0.5, Finite 0.4, Finite 0.6, Finite 0.6, Finite 0.6]) () ()
     (default_args\<lparr>max_epochs := 5, patience := 2\<rparr>) [2, 3, 4]
     \<lparr>heap = [2, 1, 2], rng = (2021, 1407), optimizer = 0, disk = [], model = 0,
      best_loss = Finite 0.4, best_epoch = 0, patience_count = 0,
      best_model = Some 2, best_preds = Some 2, epoch = Some 1\<rparr> =
   Inr \<lparr>heap = [4, 1, 2], rng = (2021, 1407), optimizer = 0, disk = [], model = 0,
        best_loss = Finite 0.4, best_epoch = 0, patience_count = 2,
        best_model = Some 2, best_preds = Some 2, epoch = Some 3\<rparr>"
proof -
  let ?scores = "[Finite 0.5, Finite 0.4, Finite 0.6, Finite 0.6, Finite 0.6]"
  let ?a = "default_args\<lparr>max_epochs := 5, patience := 2\<rparr>"
  let ?st = "\<lparr>heap = [2, 1, 2], rng = (2021, 1407), optimizer = 0, disk = [], model = 0,
      best_loss = Finite 0.4, best_epoch = 0, patience_count = 0,
      best_model = Some 2, best_preds = Some 2, epoch = Some 1\<rparr>
      :: (nat, nat, nat \<times> nat, nat) state"
  have h: "\<not> nni ?a \<and> model ?st < length (heap ?st) \<and> heap ?st ! model ?st = 2 \<and>
      2 < length ?scores"
    by (simp add: default_args_def)
  have stag: "\<forall>j<2. \<not> float_less (?scores ! (2 + j)) (best_loss ?st)"
    by (simp add: less_Suc_eq numeral_2_eq_2)
  have d: "0 < (2::nat) \<and> patience ?a = patience_count ?st + int 2 \<and> 2 \<le> length [2, 3, 4::nat] \<and>
      2 + 2 \<le> length ?scores \<and> (\<forall>j<2. \<not> float_less (?scores ! (2 + j)) (best_loss ?st))"
    using stag by simp
  from early_stopping_minimises_score
  have "training_loop (synthetic ?scores) () () ?a [2, 3, 4] ?st =
      Inr (?st\<lparr>epoch := Some ([2, 3, 4] ! (2 - 1)), heap := (heap ?st)[model ?st := 2 + 2],
               patience_count := patience ?a\<rparr>)"
    using h d by blast
  then show ?thesis by simp
qed

text \<open>
  The example as the spec states it (best score 0.6, stop after the fifth epoch, index
  4) is not what the loop computes.
\<close>

theorem spec_example_best_score_cex:
  "map_sum id (map_option best_loss)
     (main_training (synthetic [Finite 0.5, Finite 0.4, Finite 0.6, Finite 0.6, Finite 0.6])
        (default_args\<lparr>max_epochs := 5, patience := 2\<rparr>) (0, 0)) \<noteq> Inr (Some (Finite 0.6)) \<and>
   map_sum id (map_option epoch)
     (main_training (synthetic [Finite 0.5, Finite 0.4, Finite 0.6, Finite 0.6, Finite 0.6])
        (default_args\<lparr>max_epochs := 5, patience := 2\<rparr>) (0, 0)) \<noteq> Inr (Some (Some 4)) \<and>
   map_sum id (map_option best_loss)
     (main_training (synthetic [Finite 0.5, Finite 0.4, Finite 0.6, Finite 0.6, Finite 0.6])
        (default_args\<lparr>max_epochs := 5, patience := 2\<rparr>) (0, 0)) = Inr (Some (Finite 0.4)) \<and>
   map_sum id (map_option epoch)
     (main_training (synthetic [Finite 0.5, Finite 0.4, Finite 0.6, Finite 0.6, Finite 0.6])
        (default_args\<lparr>max_epochs := 5, patience := 2\<rparr>) (0, 0)) = Inr (Some (Some 3))"
  unfolding spec_example_run by simp

text \<open>
  C7. One epoch of the loop, for any library whose training sweep and validation pass
  succeed, from a well-formed state. If the score improves on the best one (the test of
  line 302), the counter is zero afterwards, the score and the epoch's predictions are
  the new best, and the best model is a newly allocated object, distinct from the model
  under training, that holds the parameters the model has at that moment. Otherwise the
  counter is one higher and the best score, predictions, reference and snapshot are what
  they were, although the model under training has changed in place.
\<close>

theorem improved_and_stagnant_transitions:
  assumes "wf_state st"
    and "train lib trl (heap st ! model st) (optimizer st) (rng st) = Inr (m, opt, r)"
    and "validate lib val m = Inr (v, preds)"
    and "\<not> nni a"
  shows "\<exists>st'. epoch_body lib trl val a e st = Inr st' \<and> wf_state st' \<and>
     model st' = model st \<and> heap st' ! model st' = m \<and>
     (float_less v (best_loss st) \<longrightarrow>
        patience_count st' = 0 \<and> best_loss st' = v \<and> best_preds st' = Some preds \<and>
        best_model st' = Some (length (heap st)) \<and> snapshot st' = Some m) \<and>
     (\<not> float_less v (best_loss st) \<longrightarrow>
        patience_count st' = patience_count st + 1 \<and> best_loss st' = best_loss st \<and>
        best_preds st' = best_preds st \<and> best_model st' = best_model st \<and>
        snapshot st' = snapshot st)"
proof -
  have m: "model st < length (heap st)" using assms(1) by (simp add: wf_state_def)
  let ?st2 = "st\<lparr>epoch := Some e, heap := (heap st)[model st := m], optimizer := opt, rng := r\<rparr>"
  have body: "epoch_body lib trl val a e st = Inr (early_stopping v preds ?st2)"
    using epoch_body_Inr[OF assms(2) _ assms(4)] assms(3) m by simp
  show ?thesis
  proof (cases "float_less v (best_loss st)")
    case True
    then show ?thesis using body m assms(1)
      by (auto simp add: early_stopping_def wf_state_def snapshot_def nth_append)
  next
    case False
    have "snapshot (early_stopping v preds ?st2) = snapshot st"
    proof (cases "best_model st")
      case None
      then show ?thesis using False by (simp add: early_stopping_def snapshot_def)
    next
      case (Some b)
      then have "b \<noteq> model st" using assms(1) by (simp add: wf_state_def)
      then show ?thesis using False Some by (simp add: early_stopping_def snapshot_def)
    qed
    moreover have "wf_state (early_stopping v preds ?st2)"
      using False assms(1) by (simp add: early_stopping_def wf_state_def)
    ultimately show ?thesis using body m False
      by (simp add: early_stopping_def)
  qed
qed

text \<open>
  Both transitions on the test double: a first epoch scoring 0.5 improves on plus
  infinity, a second epoch scoring 0.7 does not improve on 0.5.
\<close>

theorem improved_and_stagnant_transitions_witness:
  "(\<exists>st'. epoch_body (synthetic [Finite 0.5, Finite 0.7]) () () default_args 0
       \<lparr>heap = [0], rng = (2021, 1407), optimizer = 0, disk = [], model = 0,
        best_loss = PosInf, best_epoch = 0, patience_count = 0,
        best_model = None, best_preds = None, epoch = None\<rparr> = Inr st' \<and>
      patience_count st' = 0 \<and> best_loss st' = Finite 0.5 \<and> best_preds st' = Some 1 \<and>
      best_model st' = Some 1 \<and> snapshot st' = Some 1 \<and> heap st' ! model st' = 1) \<and>
   (\<exists>st'. epoch_body (synthetic [Finite 0.5, Finite 0.7]) () () default_args 1
       \<lparr>heap = [1, 1], rng = (2021, 1407), optimizer = 0, disk = [], model = 0,
        best_loss = Finite 0.5, best_epoch = 0, patience_count = 0,
        best_model = Some 1, best_preds = Some 1, epoch = Some 0\<rparr> = Inr st' \<and>
      patience_count st' = 1 \<and> best_loss st' = Finite 0.5 \<and> best_preds st' = Some 1 \<and>
      best_model st' = Some 1 \<and> snapshot st' = Some 1 \<and> heap st' ! model st' = 2)"
proof -
  let ?lib = "synthetic [Finite 0.5, Finite 0.7]"
  let ?st0 = "\<lparr>heap = [0], rng = (2021, 1407), optimizer = 0, disk = [], model = 0,
        best_loss = PosInf, best_epoch = 0, patience_count = 0,
        best_model = None, best_preds = None, epoch = None\<rparr>
        :: (nat, nat, nat \<times> nat, nat) state"
  let ?st1 = "\<lparr>heap = [1, 1], rng = (2021, 1407), optimizer = 0, disk = [], model = 0,
        best_loss = Finite 0.5, best_epoch = 0, patience_count = 0,
        best_model = Some 1, best_preds = Some 1, epoch = Some 0\<rparr>
        :: (nat, nat, nat \<times> nat, nat) state"
  have w0: "wf_state ?st0" by (simp add: wf_state_def)
  have t0: "train ?lib () (heap ?st0 ! model ?st0) (optimizer ?st0) (rng ?st0) =
      Inr (1, 0, (2021, 1407))"
    by (simp add: synthetic_def)
  have v0: "validate ?lib () 1 = Inr (Finite 0.5, 1)" by (simp add: synthetic_def)
  have n: "\<not> nni default_args" by (simp add: default_args_def)
  have w1: "wf_state ?st1" by (simp add: wf_state_def)
  have t1: "train ?lib () (heap ?st1 ! model ?st1) (optimizer ?st1) (rng ?st1) =
      Inr (2, 0, (2021, 1407))"
    by (simp add: synthetic_def)
  have v1: "validate ?lib () 2 = Inr (Finite 0.7, 2)" by (simp add: synthetic_def)
  from improved_and_stagnant_transitions[OF w0 t0 v0 n, of 0]
  have a: "\<exists>st'. epoch_body ?lib () () default_args 0 ?st0 = Inr st' \<and>
      patience_count st' = 0 \<and> best_loss st' = Finite 0.5 \<and> best_preds st' = Some 1 \<and>
      best_model st' = Some 1 \<and> snapshot st' = Some 1 \<and> heap st' ! model st' = 1"
    by auto
  from improved_and_stagnant_transitions[OF w1 t1 v1 n, of 1]
  have b: "\<exists>st'. epoch_body ?lib () () default_args 1 ?st1 = Inr st' \<and>
      patience_count st' = 1 \<and> best_loss st' = Finite 0.5 \<and> best_preds st' = Some 1 \<and>
      best_model st' = Some 1 \<and> snapshot st' = Some 1 \<and> heap st' ! model st' = 2"
    by (auto simp add: snapshot_def)
  from a b show ?thesis by (rule conjI)
qed

text \<open>
  C10. With patience -1 and a counter that is not negative, as it is when the loop
  starts, the stop test of line 310 never holds: a loop that returns has run the last
  epoch of its budget and its counter differs from the patience; and when no training
  sweep or validation pass raises and the nni flag is off, the loop does return.
\<close>

theorem negative_patience_never_stops:
  assumes "patience a = - 1" and "0 \<le> patience_count st"
  shows "(\<forall>st'. training_loop lib trl val a es st = Inr st' \<longrightarrow>
            patience_count st' \<noteq> patience a \<and> (es \<noteq> [] \<longrightarrow> epoch st' = Some (last es))) \<and>
         (\<not> nni a \<and> (\<forall>l m opt r. \<exists>y. train lib l m opt r = Inr y) \<and>
            (\<forall>l m. \<exists>y. validate lib l m = Inr y) \<longrightarrow>
          (\<exists>st'. training_loop lib trl val a es st = Inr st'))"
proof -
  have neg: "patience a < 0" using assms(1) by simp
  have 1: "\<forall>st'. training_loop lib trl val a es st = Inr st' \<longrightarrow>
            patience_count st' \<noteq> patience a \<and> (es \<noteq> [] \<longrightarrow> epoch st' = Some (last es))"
  proof (intro allI impI)
    fix st' assume r: "training_loop lib trl val a es st = Inr st'"
    from training_loop_no_break[OF neg assms(2) r] neg
    show "patience_count st' \<noteq> patience a \<and> (es \<noteq> [] \<longrightarrow> epoch st' = Some (last es))"
      by simp
  qed
  have 2: "\<not> nni a \<and> (\<forall>l m opt r. \<exists>y. train lib l m opt r = Inr y) \<and>
            (\<forall>l m. \<exists>y. validate lib l m = Inr y) \<longrightarrow>
          (\<exists>st'. training_loop lib trl val a es st = Inr st')"
    using training_loop_total[of a lib trl val es st] by blast
  show ?thesis using 1 2 by (rule conjI)
qed

text \<open>
  Three stagnant epochs after the first one, patience -1, a budget of four epochs: the
  loop runs all four.
\<close>

theorem negative_patience_never_stops_witness:
  "patience (default_args\<lparr>max_epochs := 4, patience := - 1\<rparr>) = - 1 \<and>
   (\<exists>st'. training_loop (synthetic [Finite 0.5, Finite 0.6, Finite 0.6, Finite 0.6]) () ()
       (default_args\<lparr>max_epochs := 4, patience := - 1\<rparr>) [0, 1, 2, 3]
       \<lparr>heap = [0], rng = (2021, 1407), optimizer = 0, disk = [], model = 0,
        best_loss = PosInf, best_epoch = 0, patience_count = 0,
        best_model = None, best_preds = None, epoch = None\<rparr> = Inr st' \<and>
      epoch st' = Some 3 \<and> patience_count st' \<noteq> - 1)"
proof -
  let ?lib = "synthetic [Finite 0.5, Finite 0.6, Finite 0.6, Finite 0.6]"
  let ?a = "default_args\<lparr>max_epochs := 4, patience := - 1\<rparr>"
  let ?st0 = "\<lparr>heap = [0], rng = (2021, 1407), optimizer = 0, disk = [], model = 0,
        best_loss = PosInf, best_epoch = 0, patience_count = 0,
        best_model = None, best_preds = None, epoch = None\<rparr>
        :: (nat, nat, nat \<times> nat, nat) state"
  have p: "patience ?a = - 1" by simp
  have c: "0 \<le> patience_count ?st0" by simp
  have n: "\<not> nni ?a" by (simp add: default_args_def)
  have t: "\<forall>l m opt r. \<exists>y. train ?lib l m opt r = Inr y" by (simp add: synthetic_def)
  have v: "\<forall>l m. \<exists>y. validate ?lib l m = Inr y" by (simp add: synthetic_def)
  note inst = negative_patience_never_stops[OF p c, of ?lib "()" "()" "[0, 1, 2, 3]"]
  from inst n t v obtain st' where
    r: "training_loop ?lib () () ?a [0, 1, 2, 3] ?st0 = Inr st'" by blast
  from inst r have "patience_count st' \<noteq> patience ?a \<and> epoch st' = Some 3" by auto
  then show ?thesis using r p by auto
qed

lemma load_name_nni: "load_name ''nni'' = Inl (NameError ''nni'')"
  by (simp add: load_name_def load_global_def main_locals_def module_globals_def builtins_def)

lemma main_finish_nni:
  assumes "nni a"
  shows "main_finish lib a st = (Some (NameError ''nni''), st)"
  using assms load_name_nni by (simp add: main_finish_def report_final_result_def)

lemma epoch_body_nni:
  assumes "nni a"
  shows "(\<exists>err. epoch_body lib trl val a e st = Inl err) \<and>
         ((\<forall>l m opt r. \<exists>y. train lib l m opt r = Inr y) \<and>
          (\<forall>l m. \<exists>y. validate lib l m = Inr y) \<longrightarrow>
          epoch_body lib trl val a e st = Inl (NameError ''nni''))"
proof (cases "train lib trl (heap st ! model st) (optimizer st) (rng st)")
  case (Inl err)
  then have b: "epoch_body lib trl val a e st = Inl err" by (simp add: epoch_body_def Let_def)
  have "\<not> (\<forall>l m opt r. \<exists>y. train lib l m opt r = Inr y)"
  proof
    assume "\<forall>l m opt r. \<exists>y. train lib l m opt r = Inr y"
    then obtain y where "train lib trl (heap st ! model st) (optimizer st) (rng st) = Inr y"
      by blast
    with Inl show False by simp
  qed
  then show ?thesis using b by blast
next
  case (Inr res)
  obtain m opt r where res: "res = (m, opt, r)" by (cases res)
  show ?thesis
  proof (cases "validate lib val ((heap st)[model st := m] ! model st)")
    case (Inl err)
    then have b: "epoch_body lib trl val a e st = Inl err"
      using Inr res by (simp add: epoch_body_def Let_def)
    have "\<not> (\<forall>l m. \<exists>y. validate lib l m = Inr y)"
    proof
      assume "\<forall>l m. \<exists>y. validate lib l m = Inr y"
      then obtain y where "validate lib val ((heap st)[model st := m] ! model st) = Inr y"
        by blast
      with Inl show False by simp
    qed
    then show ?thesis using b by blast
  next
    case (Inr vp)
    obtain v preds where vp: "vp = (v, preds)" by (cases vp)
    have "epoch_body lib trl val a e st = Inl (NameError ''nni'')"
      using \<open>train lib trl (heap st ! model st) (optimizer st) (rng st) = Inr res\<close> res Inr vp
        assms load_name_nni
      by (simp add: epoch_body_def Let_def report_intermediate_result_def)
    then show ?thesis by simp
  qed
qed

lemma training_loop_nni:
  assumes "nni a" and "es \<noteq> []"
  shows "(\<exists>err. training_loop lib trl val a es st = Inl err) \<and>
         ((\<forall>l m opt r. \<exists>y. train lib l m opt r = Inr y) \<and>
          (\<forall>l m. \<exists>y. validate lib l m = Inr y) \<longrightarrow>
          training_loop lib trl val a es st = Inl (NameError ''nni''))"
proof -
  obtain e es' where es: "es = e # es'" using assms(2) by (cases es) auto
  from epoch_body_nni[OF assms(1), of lib trl val e st] show ?thesis
    unfolding es by auto
qed

text \<open>
  C9, as the code has it. model.py never imports \<open>nni\<close>, so with the nni flag on the
  first report call that is reached raises NameError for the name \<open>nni\<close>, and no file is
  written. For a run that gets through its setup: it always ends with an exception and
  an empty disk; with a positive epoch budget the loop does not complete, the exception
  comes from inside the first epoch, and it is the NameError for \<open>nni\<close> of line 300
  unless the training sweep or the validation pass raises first; with an empty budget
  the final report of line 315 raises the NameError for \<open>nni\<close>. The final report raises
  that error in every state. Its argument \<open>best_valid_loss\<close> is bound nowhere either, but
  evaluation never gets to it.
\<close>

theorem nni_run_raises_name_error:
  assumes "nni a" and "main_setup lib a ambient = Inr (Some (st0, trl, val))"
  shows "(\<exists>err. main lib a ambient = (Some err, [])) \<and>
         ((\<forall>l m opt r. \<exists>y. train lib l m opt r = Inr y) \<and>
          (\<forall>l m. \<exists>y. validate lib l m = Inr y) \<longrightarrow>
          main lib a ambient = (Some (NameError ''nni''), [])) \<and>
         (0 < max_epochs a \<longrightarrow> (\<exists>err. main_training lib a ambient = Inl err)) \<and>
         (max_epochs a \<le> 0 \<longrightarrow> main lib a ambient = (Some (NameError ''nni''), [])) \<and>
         (\<forall>st. main_finish lib a st = (Some (NameError ''nni''), st)) \<and>
         load_name ''best_valid_loss'' = Inl (NameError ''best_valid_loss'')"
proof -
  have fin: "\<forall>st. main_finish lib a st = (Some (NameError ''nni''), st)"
    using main_finish_nni[OF assms(1)] by blast
  have bvl: "load_name ''best_valid_loss'' = Inl (NameError ''best_valid_loss'')"
    by (simp add: load_name_def load_global_def main_locals_def module_globals_def builtins_def)
  have d0: "disk st0 = []" using disk_main_setup[OF assms(2)] .
  show ?thesis
  proof (cases "0 < max_epochs a")
    case True
    then have ne: "[0..<nat (max_epochs a)] \<noteq> []" by simp
    note loop = training_loop_nni[OF assms(1) ne, of lib trl val st0]
    from loop obtain err where
      err: "training_loop lib trl val a [0..<nat (max_epochs a)] st0 = Inl err" by blast
    have t: "main_training lib a ambient = Inl err"
      using assms(2) err by (simp add: main_training_def)
    have m: "main lib a ambient = (Some err, [])" using t by (simp add: main_def)
    have tot: "(\<forall>l m opt r. \<exists>y. train lib l m opt r = Inr y) \<and>
          (\<forall>l m. \<exists>y. validate lib l m = Inr y) \<longrightarrow>
          main lib a ambient = (Some (NameError ''nni''), [])"
    proof
      assume "(\<forall>l m opt r. \<exists>y. train lib l m opt r = Inr y) \<and>
          (\<forall>l m. \<exists>y. validate lib l m = Inr y)"
      with loop have "training_loop lib trl val a [0..<nat (max_epochs a)] st0 =
          Inl (NameError ''nni'')" by blast
      then have "main_training lib a ambient = Inl (NameError ''nni'')"
        using assms(2) by (simp add: main_training_def)
      then show "main lib a ambient = (Some (NameError ''nni''), [])" by (simp add: main_def)
    qed
    show ?thesis using True m t tot fin bvl by auto
  next
    case False
    then have e: "[0..<nat (max_epochs a)] = []" by simp
    have t: "main_training lib a ambient = Inr (Some st0)"
      using assms(2) e by (simp add: main_training_def)
    have m: "main lib a ambient = (Some (NameError ''nni''), [])"
      using t fin d0 by (simp add: main_def)
    show ?thesis using False m fin bvl by auto
  qed
qed

text \<open>An nni run with the default budget of a hundred epochs, on the test double.\<close>

theorem nni_run_raises_name_error_witness:
  "nni (default_args\<lparr>nni := True\<rparr>) \<and>
   main_setup (synthetic [Finite 0.5]) (default_args\<lparr>nni := True\<rparr>) (0, 0) =
     Inr (Some (\<lparr>heap = [0], rng = (2021, 1407), optimizer = 0, disk = [], model = 0,
                  best_loss = PosInf, best_epoch = 0, patience_count = 0,
                  best_model = None, best_preds = None, epoch = None\<rparr>, (), ())) \<and>
   main (synthetic [Finite 0.5]) (default_args\<lparr>nni := True\<rparr>) (0, 0) =
     (Some (NameError ''nni''), [])"
proof -
  let ?lib = "synthetic [Finite 0.5]"
  let ?a = "default_args\<lparr>nni := True\<rparr>"
  have n: "nni ?a" by simp
  have s: "main_setup ?lib ?a (0, 0) =
     Inr (Some (\<lparr>heap = [0], rng = (2021, 1407), optimizer = 0, disk = [], model = 0,
                  best_loss = PosInf, best_epoch = 0, patience_count = 0,
                  best_model = None, best_preds = None, epoch = None\<rparr>, (), ()))"
    by (simp add: main_setup_def EODataset_init_def synthetic_def default_args_def Let_def)
  have t: "\<forall>l m opt r. \<exists>y. train ?lib l m opt r = Inr y" by (simp add: synthetic_def)
  have v: "\<forall>l m. \<exists>y. validate ?lib l m = Inr y" by (simp add: synthetic_def)
  from nni_run_raises_name_error[OF n s] t v
  have "main ?lib ?a (0, 0) = (Some (NameError ''nni''), [])" by blast
  then show ?thesis using n s by simp
qed

text \<open>
  The failure is not the one the claim describes: the final report raises NameError for
  \<open>nni\<close>, not for \<open>best_valid_loss\<close>, and an nni run of one epoch does not complete its
  loop.
\<close>

theorem nni_error_name_cex:
  "main_finish (synthetic []) (default_args\<lparr>nni := True, max_epochs := 0\<rparr>)
     \<lparr>heap = [0], rng = (2021, 1407), optimizer = 0, disk = [], model = 0,
      best_loss = PosInf, best_epoch = 0, patience_count = 0,
      best_model = None, best_preds = None, epoch = None\<rparr> \<noteq>
   (Some (NameError ''best_valid_loss''),
     \<lparr>heap = [0], rng = (2021, 1407), optimizer = 0, disk = [], model = 0,
      best_loss = PosInf, best_epoch = 0, patience_count = 0,
      best_model = None, best_preds = None, epoch = None\<rparr>) \<and>
   main_finish (synthetic []) (default_args\<lparr>nni := True, max_epochs := 0\<rparr>)
     \<lparr>heap = [0], rng = (2021, 1407), optimizer = 0, disk = [], model = 0,
      best_loss = PosInf, best_epoch = 0, patience_count = 0,
      best_model = None, best_preds = None, epoch = None\<rparr> =
   (Some (NameError ''nni''),
     \<lparr>heap = [0], rng = (2021, 1407), optimizer = 0, disk = [], model = 0,
      best_loss = PosInf, best_epoch = 0, patience_count = 0,
      best_model = None, best_preds = None, epoch = None\<rparr>) \<and>
   main_training (synthetic [Finite 0.5]) (default_args\<lparr>nni := True, max_epochs := 1\<rparr>) (0, 0) =
     Inl (NameError ''nni'')"
proof -
  let ?a = "default_args\<lparr>nni := True, max_epochs := 0\<rparr>"
  let ?st = "\<lparr>heap = [0], rng = (2021, 1407), optimizer = 0, disk = [], model = 0,
      best_loss = PosInf, best_epoch = 0, patience_count = 0,
      best_model = None, best_preds = None, epoch = None\<rparr>
      :: (nat, nat, nat \<times> nat, nat) state"
  have n: "nni ?a" by simp
  have f: "main_finish (synthetic []) ?a ?st = (Some (NameError ''nni''), ?st)"
    by (rule main_finish_nni[OF n])
  have g: "main_finish (synthetic []) ?a ?st \<noteq> (Some (NameError ''best_valid_loss''), ?st)"
    unfolding f by simp
  have t: "main_training (synthetic [Finite 0.5])
      (default_args\<lparr>nni := True, max_epochs := 1\<rparr>) (0, 0) = Inl (NameError ''nni'')"
    by (simp add: main_training_def main_setup_def EODataset_init_def synthetic_def
        default_args_def epoch_body_def report_intermediate_result_def load_name_nni Let_def)
  from g f t show ?thesis by (intro conjI)
qed

text \<open>
  C2. A run in which no epoch improves, here one with a budget of zero epochs and the
  nni flag off, reaches the save with \<open>best_model\<close> unbound: it ends with an
  UnboundLocalError and writes nothing. No guard stands before line 318.
\<close>

theorem save_fails_without_improvement:
  "main (synthetic []) (default_args\<lparr>max_epochs := 0\<rparr>) (0, 0) =
     (Some (UnboundLocalError ''best_model''), [])"
  by (simp add: main_def main_training_def main_setup_def EODataset_init_def synthetic_def
      default_args_def main_finish_def Let_def)

section \<open>Properties of the super-resolution network\<close>

subsection \<open>Sizes through the layers\<close>

lemma floor_log2_values: "floor_log2 2 = 1" "floor_log2 4 = 2" "floor_log2 8 = 3"
proof -
  have 1: "floor_log2 (Suc 0) = 0" by (subst floor_log2.simps) simp
  show 2: "floor_log2 2 = 1" by (subst floor_log2.simps) (simp add: 1)
  show 4: "floor_log2 4 = 2" by (subst floor_log2.simps) (simp add: 2)
  show "floor_log2 8 = 3" by (subst floor_log2.simps) (simp add: 4)
qed

lemma lower_PReLu: "lower ''PReLu'' = ''prelu''"
  by (simp add: lower_def lower_char_def)

lemma lower_Tanh: "lower ''Tanh'' = ''tanh''"
  by (simp add: lower_def lower_char_def)

lemma init_prelu:
  "ConvolutionalBlock_init w cin cout k s bn (Some ''PReLu'') =
    Inr \<lparr>conv_block = [Conv2d cin cout k s (k div 2) (conv_filter w)] @
       (if bn then [BatchNorm2d cout (bn_map w)] else []) @ [PReLU (prelu_weight w)]\<rparr>"
  by (simp add: ConvolutionalBlock_init_def lower_PReLu)

lemma init_tanh:
  "ConvolutionalBlock_init w cin cout k s bn (Some ''Tanh'') =
    Inr \<lparr>conv_block = [Conv2d cin cout k s (k div 2) (conv_filter w)] @
       (if bn then [BatchNorm2d cout (bn_map w)] else []) @ [Tanh]\<rparr>"
  by (simp add: ConvolutionalBlock_init_def lower_Tanh)

lemma init_none:
  "ConvolutionalBlock_init w cin cout k s bn None =
    Inr \<lparr>conv_block = [Conv2d cin cout k s (k div 2) (conv_filter w)] @
       (if bn then [BatchNorm2d cout (bn_map w)] else [])\<rparr>"
  by (simp add: ConvolutionalBlock_init_def)

lemma has_dimsE:
  assumes "has_dims r d"
  obtains y where "r = Inr y" "dims y = d"
  using assms by (auto simp add: has_dims_def)

lemma odd_padding: "odd k \<Longrightarrow> 2 * (k div 2) = k - 1" for k :: nat
  by (auto elim!: oddE)

lemma conv_same_size:
  assumes "odd k" "dims x = (n, cin, w, h)" "0 < w" "0 < h" "0 < cin" "0 < cout"
  shows "has_dims (apply_layer t (Conv2d cin cout k 1 (k div 2) f) x) (n, cout, w, h)"
proof -
  have k: "0 < k" using assms(1) by (auto elim: oddE)
  have p: "2 * (k div 2) = k - 1" using assms(1) by (rule odd_padding)
  have 1: "\<not> w + 2 * (k div 2) < k" and 2: "\<not> h + 2 * (k div 2) < k"
    using p k assms(3,4) by simp_all
  have 3: "w + 2 * (k div 2) - k + 1 = w" and 4: "h + 2 * (k div 2) - k + 1 = h"
    using p k assms(3,4) by simp_all
  show ?thesis using assms(2,5,6) k 1 2 3 4 by (simp add: has_dims_def)
qed

lemma bn_same_size:
  assumes "dims x = (n, c, w, h)" "t \<longrightarrow> n * w * h \<noteq> 1"
  shows "has_dims (apply_layer t (BatchNorm2d c g) x) (n, c, w, h)"
  using assms by (auto simp add: has_dims_def)

lemma act_same_size:
  assumes "l = PReLU a \<or> l = LeakyReLU a \<or> l = Tanh \<or> l = Sigmoid"
  shows "has_dims (apply_layer t l x) (dims x)"
  using assms by (auto simp add: has_dims_def)

lemma Sequential_append:
  "Sequential f (xs @ ys) x =
     (case Sequential f xs x of Inl err \<Rightarrow> Inl err | Inr y \<Rightarrow> Sequential f ys y)"
  by (induction xs arbitrary: x) (auto split: sum.splits)

lemma conv_block_size:
  assumes "odd k" "dims x = (n, cin, w, h)" "0 < w" "0 < h" "0 < cin" "0 < cout"
    and "bn \<and> t \<longrightarrow> n * w * h \<noteq> 1"
    and "act = [] \<or> act = [PReLU a] \<or> act = [Tanh]"
  shows "has_dims (ConvolutionalBlock_forward t
            \<lparr>conv_block = [Conv2d cin cout k 1 (k div 2) f] @
               (if bn then [BatchNorm2d cout g] else []) @ act\<rparr> x) (n, cout, w, h)"
proof -
  from conv_same_size[OF assms(1-6), of t f]
  obtain y1 where y1: "apply_layer t (Conv2d cin cout k 1 (k div 2) f) x = Inr y1"
    "dims y1 = (n, cout, w, h)" by (rule has_dimsE)
  have "\<exists>y2. Sequential (apply_layer t) (if bn then [BatchNorm2d cout g] else []) y1 = Inr y2
          \<and> dims y2 = (n, cout, w, h)"
  proof (cases bn)
    case True
    from bn_same_size[OF y1(2), of t g] assms(7) True
    show ?thesis by (auto simp add: has_dims_def)
  next
    case False
    then show ?thesis using y1(2) by simp
  qed
  then obtain y2 where y2:
    "Sequential (apply_layer t) (if bn then [BatchNorm2d cout g] else []) y1 = Inr y2"
    "dims y2 = (n, cout, w, h)" by blast
  have "has_dims (Sequential (apply_layer t) act y2) (n, cout, w, h)"
    using assms(8) y2(2) by (auto simp add: has_dims_def)
  then show ?thesis using y1(1) y2(1)
    by (simp add: ConvolutionalBlock_forward_def Sequential_append del: apply_layer.simps)
qed

lemma tensor_add_same_size:
  assumes "dims x = d" "dims y = d"
  shows "has_dims (tensor_add x y) d"
  using assms by (cases d) (auto simp add: tensor_add_def broadcast_dim_def has_dims_def)

lemma ResidualBlock_init_eq:
  "ResidualBlock_init w args =
    Inr \<lparr>rb_conv_block1 = \<lparr>conv_block =
            [Conv2d (n_channels args) (n_channels args) (small_kernel_size args) 1
               (small_kernel_size args div 2) (conv_filter (fst w))] @
            (if True then [BatchNorm2d (n_channels args) (bn_map (fst w))] else []) @
            [PReLU (prelu_weight (fst w))]\<rparr>,
         rb_conv_block2 = \<lparr>conv_block =
            [Conv2d (n_channels args) (n_channels args) (small_kernel_size args) 1
               (small_kernel_size args div 2) (conv_filter (snd w))] @
            (if True then [BatchNorm2d (n_channels args) (bn_map (snd w))] else []) @ []\<rparr>\<rparr>"
  by (simp add: ResidualBlock_init_def init_prelu init_none)

lemma residual_block_size:
  assumes "odd (small_kernel_size args)" "dims x = (n, n_channels args, w, h)" "0 < w" "0 < h"
    and "t \<longrightarrow> n * w * h \<noteq> 1" and "ResidualBlock_init wt args = Inr blk"
    and "0 < n_channels args"
  shows "has_dims (ResidualBlock_forward t blk x) (n, n_channels args, w, h)"
proof -
  let ?c = "n_channels args" and ?k = "small_kernel_size args"
  have blk: "blk = \<lparr>rb_conv_block1 = \<lparr>conv_block =
            [Conv2d ?c ?c ?k 1 (?k div 2) (conv_filter (fst wt))] @
            (if True then [BatchNorm2d ?c (bn_map (fst wt))] else []) @
            [PReLU (prelu_weight (fst wt))]\<rparr>,
         rb_conv_block2 = \<lparr>conv_block =
            [Conv2d ?c ?c ?k 1 (?k div 2) (conv_filter (snd wt))] @
            (if True then [BatchNorm2d ?c (bn_map (snd wt))] else []) @ []\<rparr>\<rparr>"
    using assms(6) unfolding ResidualBlock_init_eq by simp
  have "has_dims (ConvolutionalBlock_forward t (rb_conv_block1 blk) x) (n, ?c, w, h)"
    unfolding blk ResidualBlock.simps
    by (rule conv_block_size[OF assms(1-4) assms(7) assms(7)]) (use assms(5) in auto)
  then obtain y1 where y1: "ConvolutionalBlock_forward t (rb_conv_block1 blk) x = Inr y1"
    "dims y1 = (n, ?c, w, h)" by (rule has_dimsE)
  have "has_dims (ConvolutionalBlock_forward t (rb_conv_block2 blk) y1) (n, ?c, w, h)"
    unfolding blk ResidualBlock.simps
    by (rule conv_block_size[OF assms(1) y1(2) assms(3,4) assms(7) assms(7)])
      (use assms(5) in auto)
  then obtain y2 where y2: "ConvolutionalBlock_forward t (rb_conv_block2 blk) y1 = Inr y2"
    "dims y2 = (n, ?c, w, h)" by (rule has_dimsE)
  show ?thesis using y1(1) y2(1) tensor_add_same_size[OF y2(2) assms(2)]
    by (simp add: ResidualBlock_forward_def)
qed

lemma collect_Inr: "collect (map (\<lambda>i. Inr (g i)) xs) = Inr (map g xs)"
  by (induction xs) auto

lemma residual_chain_size:
  assumes "odd (small_kernel_size args)" "dims x = (n, n_channels args, w, h)" "0 < w" "0 < h"
    and "t \<longrightarrow> n * w * h \<noteq> 1"
    and "\<forall>blk \<in> set blks. \<exists>wt. ResidualBlock_init wt args = Inr blk"
    and "0 < n_channels args"
  shows "has_dims (Sequential (ResidualBlock_forward t) blks x) (n, n_channels args, w, h)"
  using assms(2,6)
proof (induction blks arbitrary: x)
  case Nil
  then show ?case by (simp add: has_dims_def)
next
  case (Cons blk blks)
  from Cons.prems(2) obtain wt where wt: "ResidualBlock_init wt args = Inr blk" by auto
  from residual_block_size[OF assms(1) Cons.prems(1) assms(3,4,5) wt assms(7)]
  obtain y where y: "ResidualBlock_forward t blk x = Inr y" "dims y = (n, n_channels args, w, h)"
    by (rule has_dimsE)
  have "has_dims (Sequential (ResidualBlock_forward t) blks y) (n, n_channels args, w, h)"
    by (rule Cons.IH[OF y(2)]) (use Cons.prems(2) in auto)
  then show ?case using y(1) by simp
qed

lemma subpixel_block_size:
  assumes "odd (small_kernel_size args)" "dims x = (n, n_channels args, w, h)" "0 < w" "0 < h"
    and "0 < n_channels args"
  shows "has_dims (SubPixelConvolutionalBlock_forward t
           (SubPixelConvolutionalBlock_init wt args 2) x) (n, n_channels args, w * 2, h * 2)"
proof -
  have c4: "0 < n_channels args * 2 ^ 2" using assms(5) by simp
  from conv_same_size[OF assms c4, of t "conv_filter wt"]
  obtain y1 where y1: "apply_layer t (Conv2d (n_channels args) (n_channels args * 2 ^ 2)
      (small_kernel_size args) 1 (small_kernel_size args div 2) (conv_filter wt)) x = Inr y1"
    "dims y1 = (n, n_channels args * 2 ^ 2, w, h)" by (rule has_dimsE)
  have "has_dims (apply_layer t (PixelShuffle 2) y1) (n, n_channels args, w * 2, h * 2)"
    using y1(2) by (simp add: has_dims_def)
  then obtain y2 where y2: "apply_layer t (PixelShuffle 2) y1 = Inr y2"
    "dims y2 = (n, n_channels args, w * 2, h * 2)" by (rule has_dimsE)
  show ?thesis using y1(1) y2
    by (simp add: SubPixelConvolutionalBlock_forward_def SubPixelConvolutionalBlock_init_def
        has_dims_def del: apply_layer.simps(1,6))
qed

lemma subpixel_chain_size:
  assumes "odd (small_kernel_size args)" "dims x = (n, n_channels args, w, h)" "0 < w" "0 < h"
    and "0 < n_channels args"
  shows "has_dims (Sequential (SubPixelConvolutionalBlock_forward t)
           (map (\<lambda>i. SubPixelConvolutionalBlock_init (ws i) args 2) is) x)
           (n, n_channels args, w * 2 ^ length is, h * 2 ^ length is)"
  using assms(2,3,4)
proof (induction "is" arbitrary: x w h)
  case Nil
  then show ?case by (simp add: has_dims_def)
next
  case (Cons i "is")
  from subpixel_block_size[OF assms(1) Cons.prems assms(5), of t "ws i"]
  obtain y where y: "SubPixelConvolutionalBlock_forward t
      (SubPixelConvolutionalBlock_init (ws i) args 2) x = Inr y"
    "dims y = (n, n_channels args, w * 2, h * 2)" by (rule has_dimsE)
  have "has_dims (Sequential (SubPixelConvolutionalBlock_forward t)
           (map (\<lambda>i. SubPixelConvolutionalBlock_init (ws i) args 2) is) y)
           (n, n_channels args, w * 2 * 2 ^ length is, h * 2 * 2 ^ length is)"
    by (rule Cons.IH[OF y(2)]) (use Cons.prems in auto)
  then show ?case using y(1) by (simp add: mult.assoc)
qed

lemma int_log2_valid:
  assumes "s \<in> {2, 4, 8}"
  shows "\<exists>k. int_log2 s = Inr k \<and> 2 ^ k = nat s"
  using assms by (auto simp add: int_log2_def floor_log2_values)


lemma SRResNet_init_valid:
  assumes "scaling_factor args \<in> {2, 4, 8}"
  shows "\<exists>k. 2 ^ k = nat (scaling_factor args) \<and>
    SRResNet_init wt args =
      Inr \<lparr>conv_block1 = \<lparr>conv_block =
              [Conv2d (input_channels args) (n_channels args) (large_kernel_size args) 1
                 (large_kernel_size args div 2) (conv_filter (p_conv_block1 wt))] @
              (if False then [BatchNorm2d (n_channels args) (bn_map (p_conv_block1 wt))] else []) @
              [PReLU (prelu_weight (p_conv_block1 wt))]\<rparr>,
           residual_blocks =
             map (\<lambda>i. projr (ResidualBlock_init (p_residual_blocks wt i) args)) [0..<n_blocks args],
           conv_block2 = \<lparr>conv_block =
              [Conv2d (n_channels args) (n_channels args) (small_kernel_size args) 1
                 (small_kernel_size args div 2) (conv_filter (p_conv_block2 wt))] @
              (if True then [BatchNorm2d (n_channels args) (bn_map (p_conv_block2 wt))] else []) @ []\<rparr>,
           subpixel_convolutional_blocks =
             map (\<lambda>i. SubPixelConvolutionalBlock_init (p_subpixel_blocks wt i) args 2) [0..<k],
           conv_block3 = \<lparr>conv_block =
              [Conv2d (n_channels args) 1 (large_kernel_size args) 1
                 (large_kernel_size args div 2) (conv_filter (p_conv_block3 wt))] @
              (if False then [BatchNorm2d 1 (bn_map (p_conv_block3 wt))] else []) @ [Tanh]\<rparr>,
           sigmoid = Sigmoid\<rparr>"
proof -
  from int_log2_valid[OF assms] obtain k where
    k: "int_log2 (scaling_factor args) = Inr k" "2 ^ k = nat (scaling_factor args)" by blast
  have rb: "(\<lambda>i. ResidualBlock_init (p_residual_blocks wt i) args) =
     (\<lambda>i. Inr (projr (ResidualBlock_init (p_residual_blocks wt i) args)))"
    by (rule ext) (simp add: ResidualBlock_init_eq)
  have c: "collect (map (\<lambda>i. ResidualBlock_init (p_residual_blocks wt i) args) [0..<n_blocks args])
      = Inr (map (\<lambda>i. projr (ResidualBlock_init (p_residual_blocks wt i) args)) [0..<n_blocks args])"
    by (subst rb) (rule collect_Inr)
  have v: "scaling_factor args = 2 \<or> scaling_factor args = 4 \<or> scaling_factor args = 8"
    using assms by simp
  have "SRResNet_init wt args =
      Inr \<lparr>conv_block1 = \<lparr>conv_block =
              [Conv2d (input_channels args) (n_channels args) (large_kernel_size args) 1
                 (large_kernel_size args div 2) (conv_filter (p_conv_block1 wt))] @
              (if False then [BatchNorm2d (n_channels args) (bn_map (p_conv_block1 wt))] else []) @
              [PReLU (prelu_weight (p_conv_block1 wt))]\<rparr>,
           residual_blocks =
             map (\<lambda>i. projr (ResidualBlock_init (p_residual_blocks wt i) args)) [0..<n_blocks args],
           conv_block2 = \<lparr>conv_block =
              [Conv2d (n_channels args) (n_channels args) (small_kernel_size args) 1
                 (small_kernel_size args div 2) (conv_filter (p_conv_block2 wt))] @
              (if True then [BatchNorm2d (n_channels args) (bn_map (p_conv_block2 wt))] else []) @ []\<rparr>,
           subpixel_convolutional_blocks =
             map (\<lambda>i. SubPixelConvolutionalBlock_init (p_subpixel_blocks wt i) args 2) [0..<k],
           conv_block3 = \<lparr>conv_block =
              [Conv2d (n_channels args) 1 (large_kernel_size args) 1
                 (large_kernel_size args div 2) (conv_filter (p_conv_block3 wt))] @
              (if False then [BatchNorm2d 1 (bn_map (p_conv_block3 wt))] else []) @ [Tanh]\<rparr>,
           sigmoid = Sigmoid\<rparr>"
    using k(1) v
    by (simp add: SRResNet_init_def init_prelu init_tanh init_none c Let_def)
  then show ?thesis using k(2) by blast
qed

lemma forward_size:
  assumes "scaling_factor args \<in> {2, 4, 8}"
    and "odd (large_kernel_size args)" and "odd (small_kernel_size args)"
    and "dims x = (n, input_channels args, w, h)" and "0 < w" and "0 < h"
    and "training \<longrightarrow> n * w * h \<noteq> 1"
    and "0 < n_channels args" and "0 < input_channels args"
  shows "\<exists>net y. SRResNet_init wt args = Inr net \<and>
     2 ^ length (subpixel_convolutional_blocks net) = nat (scaling_factor args) \<and>
     SRResNet_forward training net x = Inr y \<and>
     dims y = (n, 1, w * nat (scaling_factor args), h * nat (scaling_factor args))"
proof -
  let ?c = "n_channels args"
  from SRResNet_init_valid[OF assms(1), of wt] obtain k net where
    k: "2 ^ k = nat (scaling_factor args)" and net: "SRResNet_init wt args = Inr net"
    and b1: "conv_block1 net = \<lparr>conv_block =
              [Conv2d (input_channels args) ?c (large_kernel_size args) 1
                 (large_kernel_size args div 2) (conv_filter (p_conv_block1 wt))] @
              (if False then [BatchNorm2d ?c (bn_map (p_conv_block1 wt))] else []) @
              [PReLU (prelu_weight (p_conv_block1 wt))]\<rparr>"
    and rbs: "residual_blocks net =
             map (\<lambda>i. projr (ResidualBlock_init (p_residual_blocks wt i) args)) [0..<n_blocks args]"
    and b2: "conv_block2 net = \<lparr>conv_block =
              [Conv2d ?c ?c (small_kernel_size args) 1
                 (small_kernel_size args div 2) (conv_filter (p_conv_block2 wt))] @
              (if True then [BatchNorm2d ?c (bn_map (p_conv_block2 wt))] else []) @ []\<rparr>"
    and sbs: "subpixel_convolutional_blocks net =
             map (\<lambda>i. SubPixelConvolutionalBlock_init (p_subpixel_blocks wt i) args 2) [0..<k]"
    and b3: "conv_block3 net = \<lparr>conv_block =
              [Conv2d ?c 1 (large_kernel_size args) 1
                 (large_kernel_size args div 2) (conv_filter (p_conv_block3 wt))] @
              (if False then [BatchNorm2d 1 (bn_map (p_conv_block3 wt))] else []) @ [Tanh]\<rparr>"
    and sg: "sigmoid net = Sigmoid"
    by force
  have "has_dims (ConvolutionalBlock_forward training (conv_block1 net) x) (n, ?c, w, h)"
    unfolding b1 by (rule conv_block_size[OF assms(2,4,5,6) assms(9) assms(8)]) auto
  then obtain y1 where y1: "ConvolutionalBlock_forward training (conv_block1 net) x = Inr y1"
    "dims y1 = (n, ?c, w, h)" by (rule has_dimsE)
  have "has_dims (Sequential (ResidualBlock_forward training) (residual_blocks net) y1) (n, ?c, w, h)"
  proof (rule residual_chain_size[OF assms(3) y1(2) assms(5,6,7) _ assms(8)])
    show "\<forall>blk\<in>set (residual_blocks net). \<exists>wt. ResidualBlock_init wt args = Inr blk"
      unfolding rbs by (auto simp add: ResidualBlock_init_eq)
  qed
  then obtain y2 where y2:
    "Sequential (ResidualBlock_forward training) (residual_blocks net) y1 = Inr y2"
    "dims y2 = (n, ?c, w, h)" by (rule has_dimsE)
  have "has_dims (ConvolutionalBlock_forward training (conv_block2 net) y2) (n, ?c, w, h)"
    unfolding b2 by (rule conv_block_size[OF assms(3) y2(2) assms(5,6) assms(8) assms(8)])
      (use assms(7) in auto)
  then obtain y3 where y3: "ConvolutionalBlock_forward training (conv_block2 net) y2 = Inr y3"
    "dims y3 = (n, ?c, w, h)" by (rule has_dimsE)
  from tensor_add_same_size[OF y3(2) y1(2)]
  obtain y4 where y4: "tensor_add y3 y1 = Inr y4" "dims y4 = (n, ?c, w, h)" by (rule has_dimsE)
  have "has_dims (Sequential (SubPixelConvolutionalBlock_forward training)
           (subpixel_convolutional_blocks net) y4)
           (n, ?c, w * 2 ^ length [0..<k], h * 2 ^ length [0..<k])"
    unfolding sbs by (rule subpixel_chain_size[OF assms(3) y4(2) assms(5,6) assms(8)])
  then obtain y5 where y5: "Sequential (SubPixelConvolutionalBlock_forward training)
           (subpixel_convolutional_blocks net) y4 = Inr y5"
    "dims y5 = (n, ?c, w * 2 ^ k, h * 2 ^ k)" by (auto elim: has_dimsE)
  have pos: "0 < w * 2 ^ k" "0 < h * 2 ^ k" using assms(5,6) by simp_all
  have "has_dims (ConvolutionalBlock_forward training (conv_block3 net) y5)
          (n, 1, w * 2 ^ k, h * 2 ^ k)"
    unfolding b3 by (rule conv_block_size[OF assms(2) y5(2) pos assms(8)]) auto
  then obtain y6 where y6: "ConvolutionalBlock_forward training (conv_block3 net) y5 = Inr y6"
    "dims y6 = (n, 1, w * 2 ^ k, h * 2 ^ k)" by (rule has_dimsE)
  have "\<exists>y. SRResNet_forward training net x = Inr y \<and> dims y = (n, 1, w * 2 ^ k, h * 2 ^ k)"
    using y1 y2 y3 y4 y5 y6 sg by (simp add: SRResNet_forward_def)
  moreover have "length (subpixel_convolutional_blocks net) = k" unfolding sbs by simp
  ultimately show ?thesis using net k by auto
qed

lemma sigmoid_bounds: "0 \<le> 1 / (1 + exp (- v)) \<and> 1 / (1 + exp (- v)) \<le> 1" for v :: real
proof -
  have "0 < exp (- v)" by simp
  then have d: "1 \<le> 1 + exp (- v)" by linarith
  then have p: "0 < 1 + exp (- v)" by linarith
  have "0 \<le> 1 / (1 + exp (- v))" using p by simp
  moreover have "1 / (1 + exp (- v)) \<le> 1" using d p by (simp add: pos_divide_le_eq)
  ultimately show ?thesis by (rule conjI)
qed

lemma float_sigmoid_range:
  "float_sigmoid v = NaN \<or> (\<exists>r. float_sigmoid v = Finite r \<and> 0 \<le> r \<and> r \<le> 1)"
  using sigmoid_bounds by (cases v) auto

lemma forward_bounded:
  assumes "sigmoid net = Sigmoid" and "SRResNet_forward training net x = Inr y"
  shows "elem y i = NaN \<or> (\<exists>r. elem y i = Finite r \<and> 0 \<le> r \<and> r \<le> 1)"
proof -
  from assms obtain sr where "y = sr\<lparr>elem := (\<lambda>i. float_sigmoid (elem sr i))\<rparr>"
    by (auto simp add: SRResNet_forward_def split: sum.splits)
  then show ?thesis using float_sigmoid_range[of "elem sr i"] by simp
qed

lemma sigmoid_of_init:
  assumes "SRResNet_init wt args = Inr net"
  shows "sigmoid net = Sigmoid"
proof -
  have v: "scaling_factor args \<in> {2, 4, 8}"
    using assms by (auto simp add: SRResNet_init_def Let_def split: if_splits)
  from SRResNet_init_valid[OF v, of wt] assms show ?thesis by auto
qed

lemma init_invalid:
  assumes "scaling_factor args \<notin> {2, 4, 8}"
  shows "SRResNet_init wt args = Inl AssertionError"
  using assms by (simp add: SRResNet_init_def)


subsection \<open>The claims about the network\<close>

text \<open>
  C3. A scale factor other than 2, 4 or 8 makes the constructor raise an
  AssertionError, so there is no network to run: building and then running fails with
  that same error, whatever the weights, the mode and the input.
\<close>

theorem invalid_scale_factor_fails:
  assumes "scaling_factor args \<notin> {2, 4, 8}"
  shows "SRResNet_init wt args = Inl AssertionError \<and>
         SRResNet_run training wt args lr_imgs = Inl AssertionError"
  using init_invalid[OF assms, of wt] by (simp add: SRResNet_run_def)

theorem invalid_scale_factor_fails_witness:
  "scaling_factor (default_sr_args\<lparr>scaling_factor := 3\<rparr>) \<notin> {2, 4, 8} \<and>
   SRResNet_init zero_params (default_sr_args\<lparr>scaling_factor := 3\<rparr>) = Inl AssertionError \<and>
   SRResNet_run True zero_params (default_sr_args\<lparr>scaling_factor := 3\<rparr>)
     (zero_tensor (16, 3, 24, 24)) = Inl AssertionError"
proof -
  have h: "scaling_factor (default_sr_args\<lparr>scaling_factor := 3\<rparr>) \<notin> {2, 4, 8}" by simp
  from invalid_scale_factor_fails[OF h, of zero_params True "zero_tensor (16, 3, 24, 24)"] h
  show ?thesis by simp
qed

text \<open>
  For odd kernel sizes the sizes are the ones the source's comments give: with a scale
  factor \<open>s\<close> in 2, 4, 8, positive channel counts, and a batch with the configured number
  of input channels and positive width \<open>w\<close> and height \<open>h\<close> (in training mode, more
  than one value per channel), the network is built with a chain of \<open>log2 s\<close> sub-pixel
  blocks and the forward pass returns single-channel images of size \<open>w * s\<close> by
  \<open>h * s\<close>. This is lemma \<open>forward_size\<close> above.

  C4. Each convolution pads by half its kernel size, rounded down (lines 97, 137), which
  keeps the size only for an odd kernel. With scale factor 2, large kernel size 8 and a
  4 by 4 input in evaluation mode the forward pass returns an 11 by 11 image, not the
  8 by 8 one that the comments of \<open>forward\<close> and the claim promise.
\<close>

theorem even_kernel_output_size:
  "map_sum id dims (SRResNet_run False zero_params
     \<lparr>scaling_factor = 2, n_channels = 4, input_channels = 3,
      large_kernel_size = 8, small_kernel_size = 3, n_blocks = 1\<rparr>
     (zero_tensor (1, 3, 4, 4))) = Inr (1, 1, 11, 11) \<and>
   map_sum id dims (SRResNet_run False zero_params
     \<lparr>scaling_factor = 2, n_channels = 4, input_channels = 3,
      large_kernel_size = 8, small_kernel_size = 3, n_blocks = 1\<rparr>
     (zero_tensor (1, 3, 4, 4))) \<noteq> Inr (1, 1, 4 * 2, 4 * 2)"
  by (simp add: SRResNet_run_def SRResNet_init_def init_prelu init_tanh init_none
      ResidualBlock_init_def int_log2_def SubPixelConvolutionalBlock_init_def
      SRResNet_forward_def ConvolutionalBlock_forward_def ResidualBlock_forward_def
      SubPixelConvolutionalBlock_forward_def tensor_add_def broadcast_dim_def
      zero_tensor_def zero_params_def zero_learned_def floor_log2_values Let_def)

text \<open>
  C6, as the code has it. The last layer applied is the sigmoid, after the final
  single-channel block, and nothing in \<open>forward\<close> guards against NaN. Every element of
  every batch that the forward pass of a constructed network returns is therefore either
  NaN or a number between 0 and 1.
\<close>

theorem forward_output_bounded_or_nan:
  assumes "SRResNet_init wt args = Inr net" and "SRResNet_forward training net x = Inr y"
  shows "elem y i = NaN \<or> (\<exists>r. elem y i = Finite r \<and> 0 \<le> r \<and> r \<le> 1)"
  using forward_bounded[OF sigmoid_of_init[OF assms(1)] assms(2)] .

text \<open>The default configuration with all-zero weights, in evaluation mode.\<close>

theorem forward_output_bounded_or_nan_witness:
  "\<exists>net y. SRResNet_init zero_params default_sr_args = Inr net \<and>
     SRResNet_forward False net (zero_tensor (1, 3, 8, 8)) = Inr y \<and>
     (elem y (0, 0, 5, 7) = NaN \<or> (\<exists>r. elem y (0, 0, 5, 7) = Finite r \<and> 0 \<le> r \<and> r \<le> 1))"
proof -
  have d: "dims (zero_tensor (1, 3, 8, 8)) = (1, input_channels default_sr_args, 8, 8)"
    by (simp add: zero_tensor_def default_sr_args_def)
  have "\<exists>net y. SRResNet_init zero_params default_sr_args = Inr net \<and>
     2 ^ length (subpixel_convolutional_blocks net) = nat (scaling_factor default_sr_args) \<and>
     SRResNet_forward False net (zero_tensor (1, 3, 8, 8)) = Inr y \<and>
     dims y = (1, 1, 8 * nat (scaling_factor default_sr_args),
       8 * nat (scaling_factor default_sr_args))"
    by (rule forward_size[OF _ _ _ d]) (simp_all add: default_sr_args_def)
  then obtain net y where r: "SRResNet_init zero_params default_sr_args = Inr net"
    "SRResNet_forward False net (zero_tensor (1, 3, 8, 8)) = Inr y" by blast
  from forward_output_bounded_or_nan[OF r, of "(0, 0, 5, 7)"] r show ?thesis by blast
qed

text \<open>
  On an image of NaN pixels, with finite weights, the output element is NaN, which is
  not a number between 0 and 1: the claim as stated fails.
\<close>

theorem nan_output_cex:
  "element_at (0, 0, 0, 0) (SRResNet_run False copy_params
     \<lparr>scaling_factor = 2, n_channels = 4, input_channels = 3,
      large_kernel_size = 9, small_kernel_size = 3, n_blocks = 1\<rparr>
     (nan_tensor (1, 3, 4, 4))) = Inr NaN"
  by (simp add: element_at_def SRResNet_run_def SRResNet_init_def init_prelu init_tanh init_none
      ResidualBlock_init_def int_log2_def SubPixelConvolutionalBlock_init_def
      SRResNet_forward_def ConvolutionalBlock_forward_def ResidualBlock_forward_def
      SubPixelConvolutionalBlock_forward_def tensor_add_def broadcast_dim_def
      broadcast_index_def nan_tensor_def copy_params_def copy_learned_def floor_log2_values
      Let_def)

section \<open>Properties of the classification metric\<close>

subsection \<open>The metric on label vectors\<close>

lemma sum_list_all_zero: "(\<forall>x\<in>set xs. f x = (0::real)) \<Longrightarrow> sum_list (map f xs) = 0"
  by (induction xs) auto

lemma weighted_count_never:
  assumes "\<forall>t\<in>set target. \<forall>p\<in>set pred. \<not> sel t p"
  shows "weighted_count sel target pred weight = 0"
  unfolding weighted_count_def
proof (rule sum_list_all_zero, rule ballI)
  fix x assume x: "x \<in> set (zip target (zip pred weight))"
  obtain t p w where tpw: "x = (t, p, w)" by (cases x)
  have "t \<in> set target" using x tpw by (auto dest: set_zip_leftD)
  moreover have "(p, w) \<in> set (zip pred weight)" using x tpw by (auto dest: set_zip_rightD)
  then have "p \<in> set pred" by (rule set_zip_leftD)
  ultimately have "\<not> sel t p" using assms by blast
  then show "(case x of (t, p, w) \<Rightarrow> if sel t p then w else 0) = 0" using tpw by simp
qed

text \<open>
  Called with vectors, the metric does what the spec says: a constant prediction, or a
  constant target, scores 0.
\<close>

lemma metric_constant_pred:
  assumes "label_vector y_true = Inr target" "label_vector y_pred = Inr pred"
    and "weight_vector sample_weight = Inr weight"
    and "length target = length pred" "length target = length weight"
    and "\<forall>p\<in>set pred. p = c"
  shows "matthews_corrcoef y_true y_pred sample_weight = Inr 0"
proof (cases c)
  case True
  have "weighted_count (\<lambda>t p. \<not> t \<and> \<not> p) target pred weight = 0"
    by (rule weighted_count_never) (use assms(6) True in auto)
  moreover have "weighted_count (\<lambda>t p. t \<and> \<not> p) target pred weight = 0"
    by (rule weighted_count_never) (use assms(6) True in auto)
  ultimately show ?thesis using assms(1-5) by (simp add: matthews_corrcoef_def Let_def)
next
  case False
  have "weighted_count (\<lambda>t p. t \<and> p) target pred weight = 0"
    by (rule weighted_count_never) (use assms(6) False in auto)
  moreover have "weighted_count (\<lambda>t p. \<not> t \<and> p) target pred weight = 0"
    by (rule weighted_count_never) (use assms(6) False in auto)
  ultimately show ?thesis using assms(1-5) by (simp add: matthews_corrcoef_def Let_def)
qed

lemma metric_constant_target:
  assumes "label_vector y_true = Inr target" "label_vector y_pred = Inr pred"
    and "weight_vector sample_weight = Inr weight"
    and "length target = length pred" "length target = length weight"
    and "\<forall>t\<in>set target. t = c"
  shows "matthews_corrcoef y_true y_pred sample_weight = Inr 0"
proof (cases c)
  case True
  have "weighted_count (\<lambda>t p. \<not> t \<and> \<not> p) target pred weight = 0"
    by (rule weighted_count_never) (use assms(6) True in auto)
  moreover have "weighted_count (\<lambda>t p. \<not> t \<and> p) target pred weight = 0"
    by (rule weighted_count_never) (use assms(6) True in auto)
  ultimately show ?thesis using assms(1-5) by (simp add: matthews_corrcoef_def Let_def)
next
  case False
  have "weighted_count (\<lambda>t p. t \<and> p) target pred weight = 0"
    by (rule weighted_count_never) (use assms(6) False in auto)
  moreover have "weighted_count (\<lambda>t p. t \<and> \<not> p) target pred weight = 0"
    by (rule weighted_count_never) (use assms(6) False in auto)
  ultimately show ?thesis using assms(1-5) by (simp add: matthews_corrcoef_def Let_def)
qed

text \<open>On the vectors of the spec's example the metric scores 1.\<close>

lemma metric_perfect:
  "matthews_corrcoef (Array1 [Finite 1, Finite 1, Finite 0, Finite 0])
     (Array1 [Finite 1, Finite 1, Finite 0, Finite 0])
     (Array1 [Finite 1, Finite 1, Finite 1, Finite 1]) = Inr 1"
proof -
  have "sqrt 16 = sqrt (4 ^ 2)" by simp
  then have "sqrt 16 = 4" by (simp only: real_sqrt_abs)
  then show ?thesis
    by (simp add: matthews_corrcoef_def labels_def weighted_count_def Let_def)
qed

subsection \<open>predict\<close>

lemma metric_two_dimensional_weight:
  "matthews_corrcoef y_true y_pred (Array2 rows) = Inl ValueError"
proof (cases "label_vector y_true")
  case (Inl err)
  then have "err = ValueError"
    by (cases y_true) (auto simp add: labels_def split: if_splits)
  then show ?thesis using Inl by (simp add: matthews_corrcoef_def)
next
  case t: (Inr target)
  show ?thesis
  proof (cases "label_vector y_pred")
    case (Inl err)
    then have "err = ValueError"
      by (cases y_pred) (auto simp add: labels_def split: if_splits)
    then show ?thesis using t Inl by (simp add: matthews_corrcoef_def)
  next
    case (Inr pred)
    then show ?thesis using t by (simp add: matthews_corrcoef_def)
  qed
qed

lemma predict_never_returns:
  "\<exists>err. predict inputs target weight mdl eval_mode = Inl err"
proof (cases "mdl inputs")
  case (Inl err)
  then show ?thesis by (simp add: predict_def)
next
  case p: (Inr pred)
  show ?thesis
  proof (cases "reshape_rows (length inputs) pred")
    case (Inl err)
    then show ?thesis using p by (simp add: predict_def)
  next
    case p2: (Inr pred2)
    show ?thesis
    proof (cases "reshape_rows (length inputs) target")
      case (Inl err)
      then show ?thesis using p p2 by (simp add: predict_def)
    next
      case t2: (Inr target2)
      show ?thesis
      proof (cases "reshape_rows (length inputs) weight")
        case (Inl err)
        then show ?thesis using p p2 t2 by (simp add: predict_def)
      next
        case (Inr weight2)
        then show ?thesis using p p2 t2
          by (simp add: predict_def metric_two_dimensional_weight)
      qed
    qed
  qed
qed

text \<open>
  C5. \<open>predict\<close> does not deliver the scores of the claim. On a batch of one sample
  with target 1, 1, 0, 0, model output 1, 1, 0, 0 and weight 1, 1, 1, 1 it reshapes the
  three tensors to one row of four columns each and the metric raises ValueError, where
  the claim has the score 1.0; on four samples of one pixel each the weight is still
  two-dimensional and the call raises as well; so does a constant prediction. No call of
  \<open>predict\<close> returns a score.
\<close>

theorem predict_raises_on_spec_example:
  "predict [x] [Finite 1, Finite 1, Finite 0, Finite 0] [Finite 1, Finite 1, Finite 1, Finite 1]
     (\<lambda>_. Inr [Finite 1, Finite 1, Finite 0, Finite 0]) True = Inl ValueError \<and>
   predict [x1, x2, x3, x4] [Finite 1, Finite 1, Finite 0, Finite 0]
     [Finite 1, Finite 1, Finite 1, Finite 1]
     (\<lambda>_. Inr [Finite 1, Finite 1, Finite 0, Finite 0]) True = Inl ValueError \<and>
   predict [x] [Finite 1, Finite 1, Finite 0, Finite 0] [Finite 1, Finite 1, Finite 1, Finite 1]
     (\<lambda>_. Inr [Finite 1, Finite 1, Finite 1, Finite 1]) True = Inl ValueError \<and>
   (\<forall>inputs target weight mdl eval_mode.
      \<exists>err. predict inputs target weight mdl eval_mode = Inl err)"
proof -
  have 1: "predict [x] [Finite 1, Finite 1, Finite 0, Finite 0]
     [Finite 1, Finite 1, Finite 1, Finite 1]
     (\<lambda>_. Inr [Finite 1, Finite 1, Finite 0, Finite 0]) True = Inl ValueError"
    by (simp add: predict_def reshape_rows_def metric_two_dimensional_weight)
  have 2: "predict [x1, x2, x3, x4] [Finite 1, Finite 1, Finite 0, Finite 0]
     [Finite 1, Finite 1, Finite 1, Finite 1]
     (\<lambda>_. Inr [Finite 1, Finite 1, Finite 0, Finite 0]) True = Inl ValueError"
    by (simp add: predict_def reshape_rows_def metric_two_dimensional_weight)
  have 3: "predict [x] [Finite 1, Finite 1, Finite 0, Finite 0]
     [Finite 1, Finite 1, Finite 1, Finite 1]
     (\<lambda>_. Inr [Finite 1, Finite 1, Finite 1, Finite 1]) True = Inl ValueError"
    by (simp add: predict_def reshape_rows_def metric_two_dimensional_weight)
  show ?thesis using 1 2 3 predict_never_returns by (intro conjI allI)
qed

end
